theory Spec2Isabelle
  imports Main "HOL-Library.Char_ord" "HOL-Library.List_Lexorder"
begin

section \<open>Data model\<close>

text \<open>
  The user actions of the file-share sample (\<^verbatim>\<open>actions/user.ts\<close>) read and write the
  \<^verbatim>\<open>users\<close> table of a PostgreSQL database through a pooled \<^verbatim>\<open>pg\<close> client, and ask
  the Oso policy evaluator either for a yes/no decision or for a SQL condition that
  they splice into their own statement. The embedding keeps the three layers apart:
  the rows and the table, the statements and what the database does with them, and the
  four server actions written over a client.
\<close>

text \<open>\<^verbatim>\<open>User\<close> of \<^verbatim>\<open>lib/relations\<close>: the three columns of \<^verbatim>\<open>users\<close>, all strings.\<close>

record User =
  username :: string
  org :: string
  role :: string

text \<open>\<^verbatim>\<open>ReadableUser\<close>: a row of the permission query, with its two extra columns.\<close>

record ReadableUser = User +
  editRole :: bool
  deleteUser :: bool

text \<open>
  The schema: \<^verbatim>\<open>organizations (name TEXT PRIMARY KEY)\<close> and
  \<^verbatim>\<open>users (username TEXT PRIMARY KEY, org TEXT REFERENCES organizations, role organization_role)\<close>.
  Rows are kept in a list, in table order.
\<close>

record database =
  organizations :: "string list"
  users :: "User list"

text \<open>\<^verbatim>\<open>CREATE TYPE organization_role AS ENUM ('member', 'admin')\<close>\<close>

definition organization_role :: "string list" where
  "organization_role = [''member'', ''admin'']"

text \<open>The primary key of \<^verbatim>\<open>users\<close>: no two rows share a username.\<close>

definition primary_key :: "database \<Rightarrow> bool" where
  "primary_key db = distinct (map username (users db))"

text \<open>
  A thrown value. \<open>Error m\<close> is \<^verbatim>\<open>new Error(m)\<close>, the only error the actions construct
  themselves, with nothing but its message. What the driver throws carries more:
  \<open>DatabaseError\<close> is the error of \<^verbatim>\<open>pg\<close> for a report of the server, with the SQLSTATE code
  and the message; \<open>SystemError\<close> is the error of the runtime for a connection that could
  not be made, with its code and message.
\<close>

datatype js_error =
    Error string
  | DatabaseError string string
  | SystemError string string

text \<open>
  A condition returned by \<^verbatim>\<open>oso.listLocal\<close>: SQL text that the actions embed verbatim, and
  what the database makes of that text on a row, given the table contents and the value
  of the column the condition was compiled for. The code never looks inside the text.
\<close>

record fragment =
  frag_text :: string
  frag_holds :: "database \<Rightarrow> string \<Rightarrow> bool"

section \<open>Statements\<close>

text \<open>
  The statements the actions send. Each has the text the source writes
  (\<open>sql_text\<close>) and a meaning (\<open>execute\<close>); the values travel apart from the text, as the
  parameter list of \<^verbatim>\<open>client.query(text, params)\<close>.
\<close>

datatype stmt =
    BEGIN
  | COMMIT
  | ROLLBACK
  | InsertUser
  | DeleteUser
  | UpdateRoles "(nat \<times> nat) list" fragment
  | SelectUsers fragment fragment fragment

text \<open>The character of a decimal digit.\<close>

definition digit :: "nat \<Rightarrow> char" where
  "digit n = ''0123456789'' ! (n mod 10)"

text \<open>A number inside a template literal: its decimal digits.\<close>

function decimal :: "nat \<Rightarrow> string" where
  "decimal n = (if n < 10 then [digit n] else decimal (n div 10) @ [digit (n mod 10)])"
  by pat_completeness auto
termination
  by (relation "measure id") auto

declare decimal.simps [simp del]

text \<open>\<^verbatim>\<open>Array.prototype.join\<close>\<close>

fun join :: "string \<Rightarrow> string list \<Rightarrow> string" where
  "join sep [] = []"
| "join sep [x] = x"
| "join sep (x # y # ys) = x @ sep @ join sep (y # ys)"

definition nl :: string where
  "nl = [CHR 0x0A]"

definition dq :: string where
  "dq = [CHR 0x22]"

text \<open>One row of the \<^verbatim>\<open>VALUES\<close> list: a pair of parameter references.\<close>

definition values_row :: "nat \<times> nat \<Rightarrow> string" where
  "values_row p = ''($'' @ decimal (fst p) @ '', $'' @ decimal (snd p) @ '')''"

fun sql_text :: "stmt \<Rightarrow> string" where
  "sql_text BEGIN = ''BEGIN''"
| "sql_text COMMIT = ''COMMIT''"
| "sql_text ROLLBACK = ''ROLLBACK''"
| "sql_text InsertUser =
    ''INSERT INTO users (username, org, role) VALUES ($1, $2, $3::organization_role);''"
| "sql_text DeleteUser = ''DELETE FROM users WHERE username = $1;''"
| "sql_text (UpdateRoles rows cond) =
    nl @ ''        UPDATE users'' @
    nl @ ''        SET role = v.role::organization_role'' @
    nl @ ''        FROM (VALUES '' @
    nl @ ''          '' @ join '', '' (map values_row rows) @
    nl @ ''        ) AS v(username, role)'' @
    nl @ ''        WHERE users.username = v.username AND '' @ frag_text cond @ '';'' @
    nl @ ''      ''"
| "sql_text (SelectUsers editCond deleteCond readCond) =
    ''SELECT'' @
    nl @ ''        username,'' @
    nl @ ''        org,'' @
    nl @ ''        role,'' @
    nl @ ''        '' @ frag_text editCond @ '' as '' @ dq @ ''editRole'' @ dq @ '','' @
    nl @ ''        '' @ frag_text deleteCond @ '' as '' @ dq @ ''deleteUser'' @ dq @
    nl @ ''      FROM users'' @
    nl @ ''      WHERE '' @ frag_text readCond @
    nl @ ''      ORDER BY username''"

section \<open>What the database does with a statement\<close>

text \<open>The result object of \<^verbatim>\<open>client.query\<close>: the rows and the affected-row count.\<close>

record query_result =
  rows :: "ReadableUser list"
  rowCount :: nat

text \<open>The value bound to \<^verbatim>\<open>$k\<close> (parameters count from 1).\<close>

definition param :: "string list \<Rightarrow> nat \<Rightarrow> js_error + string" where
  "param ps k =
    (if 1 \<le> k \<and> k \<le> length ps then Inr (ps ! (k - 1))
     else Inl (DatabaseError ''42P02'' (''there is no parameter $'' @ decimal k)))"

text \<open>The \<^verbatim>\<open>VALUES\<close> list with its parameters filled in: (username, role) pairs.\<close>

fun bind_rows :: "string list \<Rightarrow> (nat \<times> nat) list \<Rightarrow> js_error + (string \<times> string) list" where
  "bind_rows ps [] = Inr []"
| "bind_rows ps ((a, b) # rest) =
    (case param ps a of
       Inl e \<Rightarrow> Inl e
     | Inr u \<Rightarrow>
        (case param ps b of
           Inl e \<Rightarrow> Inl e
         | Inr r \<Rightarrow>
            (case bind_rows ps rest of
               Inl e \<Rightarrow> Inl e
             | Inr vs \<Rightarrow> Inr ((u, r) # vs))))"

text \<open>
  The rows of \<open>v\<close> that join with a row of \<^verbatim>\<open>users\<close>:
  \<^verbatim>\<open>users.username = v.username AND <condition>\<close>.
\<close>

definition joined :: "fragment \<Rightarrow> database \<Rightarrow> (string \<times> string) list \<Rightarrow> User \<Rightarrow> (string \<times> string) list" where
  "joined cond db vs r =
    filter (\<lambda>v. username r = fst v \<and> frag_holds cond db (username r)) vs"

text \<open>
  \<^verbatim>\<open>UPDATE users SET role = v.role::organization_role FROM (VALUES ...) AS v(username, role)
  WHERE users.username = v.username AND <condition>\<close>.
  A \<^verbatim>\<open>VALUES\<close> list needs at least one row, so the statement built for no rows does not
  parse. The condition is evaluated on the table as it is before the statement. The
  cast is evaluated on the joined rows, and fails on a value outside the enum. A row of
  \<^verbatim>\<open>users\<close> that joins is updated once, whatever the number of rows of \<open>v\<close> it joins with,
  and counts once. Which joining row supplies the value the database leaves open; the
  first one does here. The choice never shows: a row joins twice only when a username is
  listed twice, and then the count differs from the number of updates.
\<close>

definition update_row :: "fragment \<Rightarrow> database \<Rightarrow> (string \<times> string) list \<Rightarrow> User \<Rightarrow> User" where
  "update_row cond db vs r =
    (case joined cond db vs r of
       [] \<Rightarrow> r
     | v # _ \<Rightarrow> r\<lparr>role := snd v\<rparr>)"

definition update_roles :: "fragment \<Rightarrow> (string \<times> string) list \<Rightarrow> database \<Rightarrow> js_error + (query_result \<times> database)" where
  "update_roles cond vs db =
    (if vs = [] then Inl (DatabaseError ''42601'' ''syntax error at or near )'')
     else if list_ex (\<lambda>r. list_ex (\<lambda>v. snd v \<notin> set organization_role) (joined cond db vs r)) (users db)
     then Inl (DatabaseError ''22P02'' ''invalid input value for enum organization_role'')
     else Inr (\<lparr>rows = [], rowCount = length (filter (\<lambda>r. joined cond db vs r \<noteq> []) (users db))\<rparr>,
               db\<lparr>users := map (update_row cond db vs) (users db)\<rparr>))"

text \<open>
  \<^verbatim>\<open>SELECT username, org, role, <edit> as "editRole", <delete> as "deleteUser"
  FROM users WHERE <read> ORDER BY username\<close>.
  Every condition is evaluated on the row's own username. The rows are ordered by the
  bytes of the username; the collation of a real database can order them differently,
  and changes nothing else.
\<close>

definition select_row :: "fragment \<Rightarrow> fragment \<Rightarrow> database \<Rightarrow> User \<Rightarrow> ReadableUser" where
  "select_row editCond deleteCond db r =
    \<lparr>username = username r, org = org r, role = role r,
     editRole = frag_holds editCond db (username r),
     deleteUser = frag_holds deleteCond db (username r)\<rparr>"

definition select_users :: "fragment \<Rightarrow> fragment \<Rightarrow> fragment \<Rightarrow> database \<Rightarrow> ReadableUser list" where
  "select_users editCond deleteCond readCond db =
    sort_key username
      (map (select_row editCond deleteCond db)
        (filter (\<lambda>r. frag_holds readCond db (username r)) (users db)))"

text \<open>
  \<^verbatim>\<open>INSERT INTO users (username, org, role) VALUES ($1, $2, $3::organization_role)\<close>:
  the cast, the primary key and the foreign key can each reject the row.
\<close>

definition insert_user :: "string \<Rightarrow> string \<Rightarrow> string \<Rightarrow> database \<Rightarrow> js_error + (query_result \<times> database)" where
  "insert_user u g r db =
    (if r \<notin> set organization_role
     then Inl (DatabaseError ''22P02'' ''invalid input value for enum organization_role'')
     else if u \<in> set (map username (users db))
     then Inl (DatabaseError ''23505'' ''duplicate key value violates unique constraint users_pkey'')
     else if g \<notin> set (organizations db)
     then Inl (DatabaseError ''23503''
                ''insert or update on table users violates foreign key constraint'')
     else Inr (\<lparr>rows = [], rowCount = 1\<rparr>,
               db\<lparr>users := users db @ [\<lparr>username = u, org = g, role = r\<rparr>]\<rparr>))"

text \<open>\<^verbatim>\<open>DELETE FROM users WHERE username = $1\<close>\<close>

definition delete_user :: "string \<Rightarrow> database \<Rightarrow> query_result \<times> database" where
  "delete_user u db =
    (\<lparr>rows = [], rowCount = length (filter (\<lambda>r. username r = u) (users db))\<rparr>,
     db\<lparr>users := filter (\<lambda>r. username r \<noteq> u) (users db)\<rparr>)"

fun execute :: "stmt \<Rightarrow> string list \<Rightarrow> database \<Rightarrow> js_error + (query_result \<times> database)" where
  "execute InsertUser ps db =
    (case param ps 1 of Inl e \<Rightarrow> Inl e | Inr u \<Rightarrow>
     (case param ps 2 of Inl e \<Rightarrow> Inl e | Inr g \<Rightarrow>
      (case param ps 3 of Inl e \<Rightarrow> Inl e | Inr r \<Rightarrow> insert_user u g r db)))"
| "execute DeleteUser ps db =
    (case param ps 1 of Inl e \<Rightarrow> Inl e | Inr u \<Rightarrow> Inr (delete_user u db))"
| "execute (UpdateRoles rs cond) ps db =
    (case bind_rows ps rs of Inl e \<Rightarrow> Inl e | Inr vs \<Rightarrow> update_roles cond vs db)"
| "execute (SelectUsers editCond deleteCond readCond) ps db =
    (let found = select_users editCond deleteCond readCond db
     in Inr (\<lparr>rows = found, rowCount = length found\<rparr>, db))"
| "execute st ps db = Inr (\<lparr>rows = [], rowCount = 0\<rparr>, db)"

section \<open>The client and its surroundings\<close>

text \<open>
  What the actions call and do not define: the pool, the Oso client and two helpers of
  \<^verbatim>\<open>lib/oso\<close> and \<^verbatim>\<open>lib/result\<close>. They are parameters of the model.
  \<^item> \<open>connect_error\<close>: whether \<^verbatim>\<open>pool.connect()\<close> rejects, and with which code and message.
  \<^item> \<open>listLocal\<close>: \<^verbatim>\<open>oso.listLocal(actor, action, resourceType, column)\<close>.
  \<^item> \<open>authorizeUser\<close>: \<^verbatim>\<open>authorizeUser(client, requestor, action, resource)\<close>; it is given the
    client, so its answer may depend on the table contents the client sees.
  \<^item> \<open>stringifyError\<close>: the message shown for a caught error.
  \<^item> \<open>fault\<close>: a failure of the statement with this text that is not the statement's own
    doing (a timeout, a cancellation), with the code and message the server reports.
\<close>

record env =
  connect_error :: "(string \<times> string) option"
  listLocal :: "string \<times> string \<Rightarrow> string \<Rightarrow> string \<Rightarrow> string \<Rightarrow> js_error + fragment"
  authorizeUser :: "database \<Rightarrow> string \<Rightarrow> string \<Rightarrow> string \<times> string \<Rightarrow> js_error + bool"
  stringifyError :: "js_error \<Rightarrow> string"
  fault :: "string \<Rightarrow> (string \<times> string) option"

text \<open>What happened on the connection, in order.\<close>

datatype event =
    Connect
  | Check string string "string \<times> string" "bool option"
  | Query string "string list"
  | ConsoleError string js_error
  | Release

text \<open>
  The transaction state of the connection: none open, one open with its uncommitted
  table contents, or one open and aborted by a failed statement.
\<close>

datatype txn_status = Idle | InTransaction database | Aborted

record session =
  stored :: database
  txn :: txn_status
  trace :: "event list"

text \<open>The table contents a statement on this connection sees.\<close>

definition current :: "session \<Rightarrow> database" where
  "current s = (case txn s of InTransaction w \<Rightarrow> w | _ \<Rightarrow> stored s)"

definition record_event :: "event \<Rightarrow> session \<Rightarrow> session" where
  "record_event e s = s\<lparr>trace := trace s @ [e]\<rparr>"

text \<open>\<^verbatim>\<open>await pool.connect()\<close>: a client with no transaction open.\<close>

definition pool_connect :: "env \<Rightarrow> database \<Rightarrow> js_error + session" where
  "pool_connect env db =
    (case connect_error env of
       Some (code, msg) \<Rightarrow> Inl (SystemError code msg)
     | None \<Rightarrow> Inr \<lparr>stored = db, txn = Idle, trace = [Connect]\<rparr>)"

text \<open>The state reported when no client was obtained.\<close>

definition no_client :: "database \<Rightarrow> session" where
  "no_client db = \<lparr>stored = db, txn = Idle, trace = []\<rparr>"

definition ok_result :: query_result where
  "ok_result = \<lparr>rows = [], rowCount = 0\<rparr>"

text \<open>
  \<^verbatim>\<open>client.query(text, params)\<close>. Outside a transaction a statement takes effect at once.
  Inside one it works on the uncommitted contents; a failure aborts the transaction,
  after which only \<^verbatim>\<open>COMMIT\<close> and \<^verbatim>\<open>ROLLBACK\<close> are accepted, and both end it without effect.
\<close>

definition run_stmt :: "stmt \<Rightarrow> string list \<Rightarrow> session \<Rightarrow> (js_error + query_result) \<times> session" where
  "run_stmt st ps s =
    (case st of
       COMMIT \<Rightarrow>
        (case txn s of
           InTransaction w \<Rightarrow> (Inr ok_result, s\<lparr>stored := w, txn := Idle\<rparr>)
         | _ \<Rightarrow> (Inr ok_result, s\<lparr>txn := Idle\<rparr>))
     | ROLLBACK \<Rightarrow> (Inr ok_result, s\<lparr>txn := Idle\<rparr>)
     | BEGIN \<Rightarrow>
        (case txn s of
           Aborted \<Rightarrow> (Inl (DatabaseError ''25P02'' ''current transaction is aborted''), s)
         | Idle \<Rightarrow> (Inr ok_result, s\<lparr>txn := InTransaction (stored s)\<rparr>)
         | InTransaction w \<Rightarrow> (Inr ok_result, s))
     | _ \<Rightarrow>
        (case txn s of
           Aborted \<Rightarrow> (Inl (DatabaseError ''25P02'' ''current transaction is aborted''), s)
         | Idle \<Rightarrow>
            (case execute st ps (stored s) of
               Inl e \<Rightarrow> (Inl e, s)
             | Inr (r, db') \<Rightarrow> (Inr r, s\<lparr>stored := db'\<rparr>))
         | InTransaction w \<Rightarrow>
            (case execute st ps w of
               Inl e \<Rightarrow> (Inl e, s\<lparr>txn := Aborted\<rparr>)
             | Inr (r, db') \<Rightarrow> (Inr r, s\<lparr>txn := InTransaction db'\<rparr>))))"

definition client_query :: "env \<Rightarrow> stmt \<Rightarrow> string list \<Rightarrow> session \<Rightarrow> (js_error + query_result) \<times> session" where
  "client_query env st ps s =
    (let s1 = record_event (Query (sql_text st) ps) s
     in case fault env (sql_text st) of
          Some (code, msg) \<Rightarrow>
            (Inl (DatabaseError code msg),
             s1\<lparr>txn := (case txn s1 of Idle \<Rightarrow> Idle | _ \<Rightarrow> Aborted)\<rparr>)
        | None \<Rightarrow> run_stmt st ps s1)"

text \<open>
  A query whose promise is not awaited: the statement is queued on the client and runs
  before anything sent later on the connection; its outcome is not looked at, and its
  failure is not caught by the surrounding \<^verbatim>\<open>try\<close>.
\<close>

definition client_query_unawaited :: "env \<Rightarrow> stmt \<Rightarrow> string list \<Rightarrow> session \<Rightarrow> session" where
  "client_query_unawaited env st ps s = snd (client_query env st ps s)"

text \<open>\<^verbatim>\<open>client.release()\<close>\<close>

definition client_release :: "session \<Rightarrow> session" where
  "client_release s = record_event Release s"

text \<open>\<^verbatim>\<open>console.error(label, error)\<close>\<close>

definition console_error :: "string \<Rightarrow> js_error \<Rightarrow> session \<Rightarrow> session" where
  "console_error label e s = record_event (ConsoleError label e) s"

text \<open>\<^verbatim>\<open>await authorizeUser(client, requestor, action, resource)\<close>\<close>

definition authorize :: "env \<Rightarrow> string \<Rightarrow> string \<Rightarrow> string \<times> string \<Rightarrow> session \<Rightarrow> (js_error + bool) \<times> session" where
  "authorize env requestor action resource s =
    (case authorizeUser env (current s) requestor action resource of
       Inl e \<Rightarrow> (Inl e, record_event (Check requestor action resource None) s)
     | Inr b \<Rightarrow> (Inr b, record_event (Check requestor action resource (Some b)) s))"

section \<open>The user actions\<close>

text \<open>\<^verbatim>\<open>Array.prototype.findIndex\<close>; \<open>None\<close> stands for the result \<^verbatim>\<open>-1\<close>.\<close>

fun findIndex :: "('a \<Rightarrow> bool) \<Rightarrow> 'a list \<Rightarrow> nat option" where
  "findIndex P [] = None"
| "findIndex P (x # xs) = (if P x then Some 0 else map_option Suc (findIndex P xs))"

text \<open>
  \<^verbatim>\<open>xs.splice(i, 1)[0]\<close> for an index inside the array: the array without its element
  at \<open>i\<close>, and that element.
\<close>

definition splice_one :: "nat \<Rightarrow> 'a list \<Rightarrow> 'a list \<times> 'a" where
  "splice_one i xs = (take i xs @ drop (Suc i) xs, xs ! i)"

text \<open>
  \<^verbatim>\<open>getReadableUsersWithPermissions(requestor)\<close>. \<open>Inl\<close> is a thrown error. The result pair
  is \<^verbatim>\<open>{ users, thisUser }\<close>; \<^verbatim>\<open>thisUser\<close> is the row object taken out of the array.
\<close>

definition readable_body :: "env \<Rightarrow> string \<Rightarrow> session \<Rightarrow> (js_error + ReadableUser list \<times> ReadableUser) \<times> session" where
  "readable_body env requestor client =
    (let osoUser = (''User'', requestor)
     in case listLocal env osoUser ''read'' ''User'' ''username'' of
          Inl e \<Rightarrow> (Inl e, client)
        | Inr readableUsersCond \<Rightarrow>
     (case listLocal env osoUser ''edit_role'' ''User'' ''username'' of
          Inl e \<Rightarrow> (Inl e, client)
        | Inr editableRoleUsersCond \<Rightarrow>
     (case listLocal env osoUser ''delete'' ''User'' ''username'' of
          Inl e \<Rightarrow> (Inl e, client)
        | Inr deleteUsersCond \<Rightarrow>
     (case client_query env
             (SelectUsers editableRoleUsersCond deleteUsersCond readableUsersCond) [] client of
          (Inl e, c1) \<Rightarrow> (Inl e, c1)
        | (Inr usersWPermissionsRes, c1) \<Rightarrow>
           (let users = rows usersWPermissionsRes
            in case findIndex (\<lambda>user. username user = requestor) users of
                 None \<Rightarrow> (Inl (Error (''user '' @ requestor @ '' not found'')), c1)
               | Some userIndex \<Rightarrow> (Inr (splice_one userIndex users), c1))))))"

definition getReadableUsersWithPermissions ::
    "env \<Rightarrow> string \<Rightarrow> database \<Rightarrow> (js_error + ReadableUser list \<times> ReadableUser) \<times> session" where
  "getReadableUsersWithPermissions env requestor db =
    (case pool_connect env db of
       Inl e \<Rightarrow> (Inl e, no_client db)
     | Inr client \<Rightarrow>
        (case readable_body env requestor client of
           (Inl error, c) \<Rightarrow>
             (Inl error,
              client_release (console_error ''Error in getReadableUsersWithPermissions:'' error c))
         | (Inr v, c) \<Rightarrow> (Inr v, client_release c)))"

text \<open>\<^verbatim>\<open>Result<string>\<close> of \<^verbatim>\<open>lib/result\<close>: success with a value, or failure with a message.\<close>

datatype 'a Result = Success 'a | Failure string

text \<open>
  \<^verbatim>\<open>createUser(p, _prevState, formData)\<close>. The form data is read by field name. Only a
  failure of \<^verbatim>\<open>pool.connect()\<close> is thrown; everything else is caught and returned.
\<close>

definition createUser ::
    "env \<Rightarrow> string \<Rightarrow> (string \<Rightarrow> string) \<Rightarrow> database \<Rightarrow> (js_error + string Result) \<times> session" where
  "createUser env requestor formData db =
    (let data_username = formData ''username'';
         data_org = formData ''organization'';
         data_role = formData ''role''
     in case pool_connect env db of
          Inl e \<Rightarrow> (Inl e, no_client db)
        | Inr client \<Rightarrow>
           (case authorize env requestor ''create_user'' (''Organization'', data_org) client of
              (Inl error, c1) \<Rightarrow> (Inr (Failure (stringifyError env error)), client_release c1)
            | (Inr auth, c1) \<Rightarrow>
               (if \<not> auth
                then (Inr (Failure (''not permitted to create user in Organization '' @ data_org)),
                      client_release c1)
                else case client_query env InsertUser [data_username, data_org, data_role] c1 of
                       (Inl error, c2) \<Rightarrow>
                         (Inr (Failure (stringifyError env error)), client_release c2)
                     | (Inr _, c2) \<Rightarrow> (Inr (Success data_username), client_release c2))))"

text \<open>
  \<^verbatim>\<open>deleteUser(requestor, username)\<close> (the name \<open>deleteUser\<close> is taken by the column of
  \<^verbatim>\<open>ReadableUser\<close>).
\<close>

definition deleteUser_body :: "env \<Rightarrow> string \<Rightarrow> string \<Rightarrow> session \<Rightarrow> (js_error + unit) \<times> session" where
  "deleteUser_body env requestor uname client =
    (case authorize env requestor ''delete'' (''User'', uname) client of
       (Inl e, c1) \<Rightarrow> (Inl e, c1)
     | (Inr auth, c1) \<Rightarrow>
        (if \<not> auth then (Inl (Error (''not permitted to delete User '' @ uname)), c1)
         else case client_query env DeleteUser [uname] c1 of
                (Inl e, c2) \<Rightarrow> (Inl e, c2)
              | (Inr _, c2) \<Rightarrow> (Inr (), c2)))"

definition deleteUser_action :: "env \<Rightarrow> string \<Rightarrow> string \<Rightarrow> database \<Rightarrow> (js_error + unit) \<times> session" where
  "deleteUser_action env requestor uname db =
    (case pool_connect env db of
       Inl e \<Rightarrow> (Inl e, no_client db)
     | Inr client \<Rightarrow>
        (case deleteUser_body env requestor uname client of
           (Inl error, c) \<Rightarrow>
             (Inl error, client_release (console_error ''Error in deleteUser:'' error c))
         | (Inr v, c) \<Rightarrow> (Inr v, client_release c)))"

text \<open>
  \<^verbatim>\<open>editUsersRoleByUsername(requestor, updates)\<close>. The \<^verbatim>\<open>VALUES\<close> rows are numbered from the
  index of each update, \<^verbatim>\<open>($${i * 2 + 1}, $${i * 2 + 2})\<close>, and \<open>userFields\<close> lists the
  usernames and roles in the same order.
\<close>

definition placeholders :: "'a list \<Rightarrow> (nat \<times> nat) list" where
  "placeholders updates = map (\<lambda>(_, i). (i * 2 + 1, i * 2 + 2)) (zip updates [0..<length updates])"

definition userFields :: "User list \<Rightarrow> string list" where
  "userFields updates = concat (map (\<lambda>user. [username user, role user]) updates)"

definition queryText :: "fragment \<Rightarrow> User list \<Rightarrow> stmt" where
  "queryText editRoleAuthorized updates = UpdateRoles (placeholders updates) editRoleAuthorized"

definition not_permitted_all :: js_error where
  "not_permitted_all = Error ''not permitted to edit role of all submitted users''"

definition editUsers_body :: "env \<Rightarrow> string \<Rightarrow> User list \<Rightarrow> session \<Rightarrow> (js_error + unit) \<times> session" where
  "editUsers_body env requestor updates client =
    (let osoUser = (''User'', requestor)
     in case listLocal env osoUser ''edit_role'' ''User'' ''users.username'' of
          Inl e \<Rightarrow> (Inl e, client)
        | Inr editRoleAuthorized \<Rightarrow>
           (case client_query env BEGIN [] client of
              (Inl e, c1) \<Rightarrow> (Inl e, c1)
            | (Inr _, c1) \<Rightarrow>
               (case client_query env (queryText editRoleAuthorized updates) (userFields updates) c1 of
                  (Inl e, c2) \<Rightarrow> (Inl e, c2)
                | (Inr r, c2) \<Rightarrow>
                   (if rowCount r \<noteq> length updates
                    then (Inl not_permitted_all, client_query_unawaited env ROLLBACK [] c2)
                    else (Inr (), client_query_unawaited env COMMIT [] c2)))))"

definition editUsersRoleByUsername :: "env \<Rightarrow> string \<Rightarrow> User list \<Rightarrow> database \<Rightarrow> (js_error + unit) \<times> session" where
  "editUsersRoleByUsername env requestor updates db =
    (case pool_connect env db of
       Inl e \<Rightarrow> (Inl e, no_client db)
     | Inr client \<Rightarrow>
        (case editUsers_body env requestor updates client of
           (Inl error, c) \<Rightarrow>
             (Inl error, client_release (console_error ''Error in editUsersRoleByUsername:'' error c))
         | (Inr v, c) \<Rightarrow> (Inr v, client_release c)))"

section \<open>The policy of the repository, as an evaluator\<close>

text \<open>
  One evaluator to run the actions with: the rules of \<^verbatim>\<open>oso-policy.polar\<close> read over the facts
  that the local authorization configuration takes from the \<^verbatim>\<open>users\<close> table.
  \<^item> \<^verbatim>\<open>has_role(User, String, Organization)\<close>: \<^verbatim>\<open>SELECT users.username, users.role::TEXT, users.org FROM users\<close>
  \<^item> \<^verbatim>\<open>has_relation(User, parent, Organization)\<close>: \<^verbatim>\<open>SELECT username, org FROM users\<close>
  The policy file has no rule that uses the global roles of the configuration, so the
  bootstrap user \<^verbatim>\<open>root\<close> is an administrator of its own organization only.
\<close>

definition has_role :: "database \<Rightarrow> string \<Rightarrow> string \<Rightarrow> string \<Rightarrow> bool" where
  "has_role db u r g = list_ex (\<lambda>row. username row = u \<and> role row = r \<and> org row = g) (users db)"

definition has_relation_parent :: "database \<Rightarrow> string \<Rightarrow> string \<Rightarrow> bool" where
  "has_relation_parent db x g = list_ex (\<lambda>row. username row = x \<and> org row = g) (users db)"

text \<open>\<^verbatim>\<open>resource Organization\<close>: roles \<^verbatim>\<open>admin\<close> and \<^verbatim>\<open>member\<close>, with \<^verbatim>\<open>"member" if "admin"\<close>.\<close>

definition organization_has_role :: "database \<Rightarrow> string \<Rightarrow> string \<Rightarrow> string \<Rightarrow> bool" where
  "organization_has_role db u r g =
    (has_role db u r g \<or> (r = ''member'' \<and> has_role db u ''admin'' g))"

text \<open>\<^verbatim>\<open>"read" if "member"; "create_user" if "admin";\<close>\<close>

definition organization_permission :: "database \<Rightarrow> string \<Rightarrow> string \<Rightarrow> string \<Rightarrow> bool" where
  "organization_permission db u action g =
    ((action = ''read'' \<and> organization_has_role db u ''member'' g) \<or>
     (action = ''create_user'' \<and> organization_has_role db u ''admin'' g))"

text \<open>
  \<^verbatim>\<open>actor User\<close>:
  \<^verbatim>\<open>"read" if "member" on "parent"; "edit_role" if "admin" on "parent"; "delete" if "admin" on "parent";\<close>
\<close>

definition user_permission :: "database \<Rightarrow> string \<Rightarrow> string \<Rightarrow> string \<Rightarrow> bool" where
  "user_permission db u action x =
    list_ex (\<lambda>g. has_relation_parent db x g \<and>
        ((action = ''read'' \<and> organization_has_role db u ''member'' g) \<or>
         (action = ''edit_role'' \<and> organization_has_role db u ''admin'' g) \<or>
         (action = ''delete'' \<and> organization_has_role db u ''admin'' g)))
      (map org (users db))"

text \<open>
  The condition for an actor and an action. Its text here is a stand-in (the evaluator's
  SQL is not part of the repository); its meaning is the rule above.
\<close>

definition policy_condition :: "string \<Rightarrow> string \<Rightarrow> string \<Rightarrow> fragment" where
  "policy_condition actor action column =
    \<lparr>frag_text = column @ '' IN (<'' @ action @ '' for '' @ actor @ ''>)'',
     frag_holds = (\<lambda>db x. user_permission db actor action x)\<rparr>"

definition policy_listLocal :: "string \<times> string \<Rightarrow> string \<Rightarrow> string \<Rightarrow> string \<Rightarrow> js_error + fragment" where
  "policy_listLocal actor action resourceType column =
    (if fst actor = ''User'' \<and> resourceType = ''User'' \<and>
        action \<in> set [''read'', ''edit_role'', ''delete'']
     then Inr (policy_condition (snd actor) action column)
     else Inl (Error ''policy does not declare this action''))"

definition policy_authorizeUser :: "database \<Rightarrow> string \<Rightarrow> string \<Rightarrow> string \<times> string \<Rightarrow> js_error + bool" where
  "policy_authorizeUser db requestor action resource =
    Inr (if fst resource = ''Organization''
         then organization_permission db requestor action (snd resource)
         else if fst resource = ''User''
         then user_permission db requestor action (snd resource)
         else False)"

fun message :: "js_error \<Rightarrow> string" where
  "message (Error m) = m"
| "message (DatabaseError code m) = m"
| "message (SystemError code m) = m"

definition policy_env :: env where
  "policy_env =
    \<lparr>connect_error = None, listLocal = policy_listLocal, authorizeUser = policy_authorizeUser,
     stringifyError = message, fault = (\<lambda>_. None)\<rparr>"

text \<open>
  A small table: the bootstrap user of the schema script, and an organization with an
  administrator and a member.
\<close>

definition root_user :: User where
  "root_user = \<lparr>username = ''root'', org = ''_'', role = ''admin''\<rparr>"

definition bob :: User where
  "bob = \<lparr>username = ''bob'', org = ''acme'', role = ''admin''\<rparr>"

definition alice :: User where
  "alice = \<lparr>username = ''alice'', org = ''acme'', role = ''member''\<rparr>"

definition acme_db :: database where
  "acme_db = \<lparr>organizations = [''_'', ''acme''], users = [root_user, bob, alice]\<rparr>"

section \<open>Notions used in the statements\<close>

text \<open>The events of a batch update up to and including its \<^verbatim>\<open>UPDATE\<close>.\<close>

definition batch_trace :: "fragment \<Rightarrow> User list \<Rightarrow> event list" where
  "batch_trace cond updates =
    [Connect, Query ''BEGIN'' [],
     Query (sql_text (queryText cond updates)) (userFields updates)]"

text \<open>A target is authorized when it names a row of \<^verbatim>\<open>users\<close> on which the condition holds.\<close>

definition authorized :: "fragment \<Rightarrow> database \<Rightarrow> string \<Rightarrow> bool" where
  "authorized cond db x = (x \<in> set (map username (users db)) \<and> frag_holds cond db x)"

text \<open>The table after a batch: each row named by an update carries that update's role.\<close>

definition apply_updates :: "User list \<Rightarrow> User list \<Rightarrow> User list" where
  "apply_updates updates table =
    map (\<lambda>r. case find (\<lambda>u. username u = username r) updates of
                None \<Rightarrow> r
              | Some u \<Rightarrow> r\<lparr>role := role u\<rparr>) table"

text \<open>The number of rows of \<^verbatim>\<open>users\<close> that join with a row of the \<^verbatim>\<open>VALUES\<close> list.\<close>

definition affected :: "fragment \<Rightarrow> User list \<Rightarrow> database \<Rightarrow> nat" where
  "affected cond us db =
    length (filter (\<lambda>r. joined cond db (map (\<lambda>u. (username u, role u)) us) r \<noteq> []) (users db))"

text \<open>The statements sent on the connection, with their parameters, in order.\<close>

fun queries :: "event list \<Rightarrow> (string \<times> string list) list" where
  "queries [] = []"
| "queries (Query t ps # es) = (t, ps) # queries es"
| "queries (_ # es) = queries es"

text \<open>
  Reading a trace from the left: every statement comes after an authorization check,
  and the latest check before it answered yes.
\<close>

fun guarded :: "bool \<Rightarrow> event list \<Rightarrow> bool" where
  "guarded allowed [] = True"
| "guarded allowed (Check _ _ _ answer # es) = guarded (answer = Some True) es"
| "guarded allowed (Query _ _ # es) = (allowed \<and> guarded allowed es)"
| "guarded allowed (_ # es) = guarded allowed es"

text \<open>Two surroundings in which something outside the action fails.\<close>

definition refusing_env :: env where
  "refusing_env = policy_env\<lparr>connect_error := Some (''ECONNREFUSED'', ''connect ECONNREFUSED'')\<rparr>"

definition timeout_env :: env where
  "timeout_env = policy_env\<lparr>fault := (\<lambda>_. Some (''57014'', ''canceling statement due to statement timeout''))\<rparr>"

text \<open>A requestor who is not in the sample table, and her conditions.\<close>

definition carol :: User where
  "carol = \<lparr>username = ''carol'', org = ''acme'', role = ''member''\<rparr>"

definition carol_cond :: "string \<Rightarrow> fragment" where
  "carol_cond action = policy_condition ''carol'' action ''username''"

text \<open>The form submitted to create \<open>carol\<close> as a member of \<open>acme\<close>.\<close>

definition carol_form :: "string \<Rightarrow> string" where
  "carol_form field =
    (if field = ''username'' then ''carol''
     else if field = ''organization'' then ''acme''
     else if field = ''role'' then ''member''
     else [])"

text \<open>An update whose values are written to break out of a statement.\<close>

definition injection_attempt :: "User list" where
  "injection_attempt =
    [\<lparr>username = ''x; DROP TABLE users; --'', org = ''acme'', role = ''admin); --''\<rparr>]"

section \<open>Properties of the operations\<close>

lemma edit_run_failed:
  assumes "connect_error env = None" "fault env = (\<lambda>_. None)"
    and "listLocal env (''User'', requestor) ''edit_role'' ''User'' ''users.username'' = Inr cond"
    and "execute (queryText cond updates) (userFields updates) db = Inl e"
  shows "editUsersRoleByUsername env requestor updates db =
    (Inl e, \<lparr>stored = db, txn = Aborted,
       trace = batch_trace cond updates @
         [ConsoleError ''Error in editUsersRoleByUsername:'' e, Release]\<rparr>)"
  using assms
  by (simp add: editUsersRoleByUsername_def editUsers_body_def pool_connect_def
      client_query_def run_stmt_def record_event_def client_release_def console_error_def
      queryText_def batch_trace_def)

lemma edit_run_mismatch:
  assumes "connect_error env = None" "fault env = (\<lambda>_. None)"
    and "listLocal env (''User'', requestor) ''edit_role'' ''User'' ''users.username'' = Inr cond"
    and "execute (queryText cond updates) (userFields updates) db = Inr (res, db')"
    and "rowCount res \<noteq> length updates"
  shows "editUsersRoleByUsername env requestor updates db =
    (Inl not_permitted_all, \<lparr>stored = db, txn = Idle,
       trace = batch_trace cond updates @
         [Query ''ROLLBACK'' [],
          ConsoleError ''Error in editUsersRoleByUsername:'' not_permitted_all, Release]\<rparr>)"
  using assms
  by (simp add: editUsersRoleByUsername_def editUsers_body_def pool_connect_def
      client_query_def client_query_unawaited_def run_stmt_def record_event_def client_release_def console_error_def
      queryText_def batch_trace_def)

lemma edit_run_match:
  assumes "connect_error env = None" "fault env = (\<lambda>_. None)"
    and "listLocal env (''User'', requestor) ''edit_role'' ''User'' ''users.username'' = Inr cond"
    and "execute (queryText cond updates) (userFields updates) db = Inr (res, db')"
    and "rowCount res = length updates"
  shows "editUsersRoleByUsername env requestor updates db =
    (Inr (), \<lparr>stored = db', txn = Idle,
       trace = batch_trace cond updates @ [Query ''COMMIT'' [], Release]\<rparr>)"
  using assms
  by (simp add: editUsersRoleByUsername_def editUsers_body_def pool_connect_def
      client_query_def client_query_unawaited_def run_stmt_def record_event_def client_release_def console_error_def
      queryText_def batch_trace_def)

lemma map_zip_index:
  "length xs = length ys \<Longrightarrow> map (\<lambda>(_, i). f i) (zip xs ys) = map f ys"
  by (induction xs ys rule: list_induct2) simp_all

lemma placeholders_upt:
  "placeholders updates = map (\<lambda>i. (i * 2 + 1, i * 2 + 2)) [0..<length updates]"
  unfolding placeholders_def by (rule map_zip_index) simp

lemma bind_rows_shifted:
  "length pre = 2 * k \<Longrightarrow>
   bind_rows (pre @ userFields us) (map (\<lambda>i. (i * 2 + 1, i * 2 + 2)) [k..<k + length us])
     = Inr (map (\<lambda>u. (username u, role u)) us)"
proof (induction us arbitrary: pre k)
  case Nil
  then show ?case by simp
next
  case (Cons u rest)
  have upt: "[k..<k + length (u # rest)] = k # [Suc k..<Suc k + length rest]"
    using upt_rec [of k "k + Suc (length rest)"] by simp
  have fields: "pre @ userFields (u # rest) = (pre @ [username u, role u]) @ userFields rest"
    by (simp add: userFields_def)
  have p1: "param (pre @ userFields (u # rest)) (k * 2 + 1) = Inr (username u)"
    using Cons.prems by (simp add: param_def userFields_def nth_append)
  have p2: "param (pre @ userFields (u # rest)) (k * 2 + 2) = Inr (role u)"
    using Cons.prems by (simp add: param_def userFields_def nth_append)
  have "length (pre @ [username u, role u]) = 2 * Suc k"
    using Cons.prems by simp
  from Cons.IH [OF this]
  have rest: "bind_rows (pre @ userFields (u # rest))
      (map (\<lambda>i. (i * 2 + 1, i * 2 + 2)) [Suc k..<Suc k + length rest])
      = Inr (map (\<lambda>u. (username u, role u)) rest)"
    by (simp only: fields)
  show ?case
    by (simp only: upt list.map bind_rows.simps p1 p2 rest sum.case)
qed

lemma bind_userFields:
  "bind_rows (userFields us) (placeholders us) = Inr (map (\<lambda>u. (username u, role u)) us)"
  using bind_rows_shifted [of "[]" 0 us] by (simp add: placeholders_upt)

lemma execute_queryText:
  "execute (queryText cond us) (userFields us) db =
     update_roles cond (map (\<lambda>u. (username u, role u)) us) db"
  by (simp add: queryText_def bind_userFields)

lemma joined_nonempty:
  "joined cond db (map (\<lambda>u. (username u, role u)) us) r \<noteq> [] \<longleftrightarrow>
     username r \<in> set (map username us) \<and> frag_holds cond db (username r)"
  by (auto simp: joined_def filter_empty_conv)

lemma affected_card:
  assumes "primary_key db"
  shows "affected cond us db = card {x \<in> set (map username us). authorized cond db x}"
proof -
  let ?Q = "\<lambda>x. x \<in> set (map username us) \<and> frag_holds cond db x"
  have "affected cond us db = length (filter ?Q (map username (users db)))"
    by (simp add: affected_def joined_nonempty filter_map comp_def)
  also have "\<dots> = card ({x. ?Q x} \<inter> set (map username (users db)))"
    using assms distinct_length_filter [of "map username (users db)" ?Q]
    by (simp add: primary_key_def)
  also have "{x. ?Q x} \<inter> set (map username (users db))
      = {x \<in> set (map username us). authorized cond db x}"
    by (auto simp: authorized_def)
  finally show ?thesis .
qed

lemma affected_le:
  assumes "primary_key db"
  shows "affected cond us db \<le> length us"
proof -
  have "card {x \<in> set (map username us). authorized cond db x} \<le> card (set (map username us))"
    by (rule card_mono) auto
  also have "\<dots> \<le> length (map username us)"
    by (rule card_length)
  finally show ?thesis
    using assms by (simp add: affected_card)
qed

lemma affected_eq_iff:
  assumes "primary_key db"
  shows "affected cond us db = length us \<longleftrightarrow>
    distinct (map username us) \<and> list_all (\<lambda>u. authorized cond db (username u)) us"
proof
  let ?T = "set (map username us)"
  let ?A = "{x \<in> ?T. authorized cond db x}"
  assume eq: "affected cond us db = length us"
  have le1: "card ?A \<le> card ?T" by (rule card_mono) auto
  have le2: "card ?T \<le> length (map username us)" by (rule card_length)
  from eq assms have cA: "card ?A = length us" by (simp add: affected_card)
  with le1 le2 have cT: "card ?T = length (map username us)" by simp
  then have d: "distinct (map username us)" by (rule card_distinct)
  from cA cT have "card ?A = card ?T" by simp
  moreover have "?A \<subseteq> ?T" by auto
  ultimately have "?A = ?T" by (simp add: card_subset_eq)
  then have "\<forall>x\<in>?T. authorized cond db x" by blast
  then have "list_all (\<lambda>u. authorized cond db (username u)) us"
    by (simp add: list_all_iff)
  with d show "distinct (map username us) \<and> list_all (\<lambda>u. authorized cond db (username u)) us" ..
next
  let ?T = "set (map username us)"
  assume h: "distinct (map username us) \<and> list_all (\<lambda>u. authorized cond db (username u)) us"
  then have "{x \<in> ?T. authorized cond db x} = ?T"
    by (auto simp: list_all_iff)
  moreover from h have "card ?T = length (map username us)"
    using distinct_card [of "map username us"] by simp
  ultimately show "affected cond us db = length us"
    using assms by (simp add: affected_card)
qed

lemma joined_all_hold:
  assumes "list_all (\<lambda>u. frag_holds cond db (username u)) us"
  shows "joined cond db (map (\<lambda>u. (username u, role u)) us) r
    = map (\<lambda>u. (username u, role u)) (filter (\<lambda>u. username u = username r) us)"
  using assms by (induction us) (auto simp: joined_def)

lemma find_filter:
  "find P xs = (case filter P xs of [] \<Rightarrow> None | x # _ \<Rightarrow> Some x)"
  by (induction xs) simp_all

lemma update_row_apply:
  assumes "list_all (\<lambda>u. frag_holds cond db (username u)) us"
  shows "update_row cond db (map (\<lambda>u. (username u, role u)) us) r
    = (case find (\<lambda>u. username u = username r) us of None \<Rightarrow> r | Some u \<Rightarrow> r\<lparr>role := role u\<rparr>)"
  by (simp add: update_row_def joined_all_hold [OF assms] find_filter split: list.splits)

lemma no_cast_error:
  assumes "list_all (\<lambda>u. role u \<in> set organization_role) us"
  shows "\<not> list_ex (\<lambda>r. list_ex (\<lambda>v. snd v \<notin> set organization_role)
            (joined cond db (map (\<lambda>u. (username u, role u)) us) r)) (users db)"
  using assms by (auto simp: list_ex_iff list_all_iff joined_def)

lemma update_roles_ok:
  assumes "us \<noteq> []" "list_all (\<lambda>u. role u \<in> set organization_role) us"
  shows "\<exists>db'. update_roles cond (map (\<lambda>u. (username u, role u)) us) db =
    Inr (\<lparr>rows = [], rowCount = affected cond us db\<rparr>, db')"
  using assms no_cast_error [OF assms(2), of cond db]
  by (simp add: update_roles_def affected_def)

lemma update_roles_count:
  assumes "update_roles cond (map (\<lambda>u. (username u, role u)) us) db = Inr (res, db')"
  shows "rowCount res = affected cond us db"
  using assms by (auto simp: update_roles_def affected_def split: if_splits)

lemma update_roles_all:
  assumes "us \<noteq> []" "list_all (\<lambda>u. role u \<in> set organization_role) us"
    and "list_all (\<lambda>u. authorized cond db (username u)) us"
  shows "update_roles cond (map (\<lambda>u. (username u, role u)) us) db =
    Inr (\<lparr>rows = [], rowCount = affected cond us db\<rparr>, db\<lparr>users := apply_updates us (users db)\<rparr>)"
proof -
  from assms(3) have "list_all (\<lambda>u. frag_holds cond db (username u)) us"
    by (simp add: list_all_iff authorized_def)
  then have "map (update_row cond db (map (\<lambda>u. (username u, role u)) us)) (users db)
      = apply_updates us (users db)"
    by (simp add: apply_updates_def update_row_apply)
  then show ?thesis
    using assms(1) no_cast_error [OF assms(2), of cond db]
    by (simp add: update_roles_def affected_def)
qed

lemma findIndex_None: "findIndex P xs = None \<longleftrightarrow> filter P xs = []"
  by (induction xs) auto

lemma findIndex_Some:
  "findIndex P xs = Some i \<Longrightarrow> i < length xs \<and> P (xs ! i) \<and> filter P (take i xs) = []"
proof (induction xs arbitrary: i)
  case Nil
  then show ?case by simp
next
  case (Cons x xs)
  show ?case
  proof (cases "P x")
    case True
    with Cons.prems show ?thesis by simp
  next
    case False
    with Cons.prems obtain j where j: "findIndex P xs = Some j" "i = Suc j"
      by auto
    from Cons.IH [OF j(1)] False j(2) show ?thesis by simp
  qed
qed

lemma splice_one_parts:
  assumes "findIndex P xs = Some i"
  shows "filter P xs = snd (splice_one i xs) # filter P (fst (splice_one i xs))"
    and "set (fst (splice_one i xs)) \<subseteq> set xs"
    and "snd (splice_one i xs) \<in> set xs"
proof -
  from findIndex_Some [OF assms]
  have i: "i < length xs" and p: "P (xs ! i)" and before: "filter P (take i xs) = []"
    by simp_all
  have split: "xs = take i xs @ xs ! i # drop (Suc i) xs"
    using i by (rule id_take_nth_drop)
  have "filter P xs = filter P (take i xs) @ filter P (xs ! i # drop (Suc i) xs)"
    by (subst split) (simp only: filter_append)
  then show "filter P xs = snd (splice_one i xs) # filter P (fst (splice_one i xs))"
    using p before by (simp add: splice_one_def)
  show "set (fst (splice_one i xs)) \<subseteq> set xs"
    using set_take_subset [of i xs] set_drop_subset [of "Suc i" xs]
    by (auto simp: splice_one_def)
  show "snd (splice_one i xs) \<in> set xs"
    using i by (simp add: splice_one_def)
qed

lemma select_users_set:
  "set (select_users editCond deleteCond readCond db) =
    select_row editCond deleteCond db ` {r \<in> set (users db). frag_holds readCond db (username r)}"
  by (simp add: select_users_def)

lemma select_users_filter_name:
  "length (filter (\<lambda>r. username r = q) (select_users editCond deleteCond readCond db)) =
   length (filter (\<lambda>r. username r = q \<and> frag_holds readCond db q) (users db))"
proof -
  have "filter (\<lambda>r. username r = q) (select_users editCond deleteCond readCond db)
      = sort_key username (filter (\<lambda>r. username r = q)
          (map (select_row editCond deleteCond db)
            (filter (\<lambda>r. frag_holds readCond db (username r)) (users db))))"
    by (simp add: select_users_def filter_sort)
  then have "length (filter (\<lambda>r. username r = q) (select_users editCond deleteCond readCond db))
      = length (filter (\<lambda>r. username r = q \<and> frag_holds readCond db (username r)) (users db))"
    by (simp add: filter_map comp_def select_row_def conj_commute)
  also have "filter (\<lambda>r. username r = q \<and> frag_holds readCond db (username r)) (users db)
      = filter (\<lambda>r. username r = q \<and> frag_holds readCond db q) (users db)"
    by (rule filter_cong) auto
  finally show ?thesis .
qed

lemma key_count_le_one:
  "distinct (map f xs) \<Longrightarrow> length (filter (\<lambda>r. f r = q) xs) \<le> Suc 0"
proof (induction xs)
  case Nil
  then show ?case by simp
next
  case (Cons x xs)
  show ?case
  proof (cases "f x = q")
    case True
    from Cons.prems have "f x \<notin> f ` set xs" by simp
    with True have "\<forall>r\<in>set xs. f r \<noteq> q" by blast
    then have "filter (\<lambda>r. f r = q) xs = []"
      by (simp add: filter_empty_conv)
    with True show ?thesis by simp
  next
    case False
    with Cons show ?thesis by simp
  qed
qed

lemma key_count_one:
  assumes "distinct (map f xs)" "q \<in> set (map f xs)"
  shows "length (filter (\<lambda>r. f r = q) xs) = Suc 0"
proof -
  from assms(2) obtain r where "r \<in> set xs" "f r = q" by auto
  then have "filter (\<lambda>r. f r = q) xs \<noteq> []"
    by (auto simp: filter_empty_conv)
  then obtain a rest where ar: "filter (\<lambda>r. f r = q) xs = a # rest"
    by (auto simp: neq_Nil_conv)
  with key_count_le_one [OF assms(1), of q] show ?thesis by simp
qed

lemma readable_run:
  assumes "connect_error env = None" "fault env = (\<lambda>_. None)"
    and "listLocal env (''User'', requestor) ''read'' ''User'' ''username'' = Inr readCond"
    and "listLocal env (''User'', requestor) ''edit_role'' ''User'' ''username'' = Inr editCond"
    and "listLocal env (''User'', requestor) ''delete'' ''User'' ''username'' = Inr deleteCond"
  shows "fst (getReadableUsersWithPermissions env requestor db) =
    (case findIndex (\<lambda>user. username user = requestor) (select_users editCond deleteCond readCond db) of
       None \<Rightarrow> Inl (Error (''user '' @ requestor @ '' not found''))
     | Some userIndex \<Rightarrow> Inr (splice_one userIndex (select_users editCond deleteCond readCond db)))"
  using assms
  by (simp add: getReadableUsersWithPermissions_def readable_body_def pool_connect_def
      client_query_def run_stmt_def record_event_def Let_def split: option.splits)

lemma readable_returned:
  assumes "listLocal env (''User'', requestor) ''read'' ''User'' ''username'' = Inr readCond"
    and "listLocal env (''User'', requestor) ''edit_role'' ''User'' ''username'' = Inr editCond"
    and "listLocal env (''User'', requestor) ''delete'' ''User'' ''username'' = Inr deleteCond"
    and "getReadableUsersWithPermissions env requestor db = (Inr (others, thisUser), s)"
  shows "\<exists>i. findIndex (\<lambda>user. username user = requestor) (select_users editCond deleteCond readCond db) = Some i
      \<and> (others, thisUser) = splice_one i (select_users editCond deleteCond readCond db)
      \<and> queries (trace s) = [(sql_text (SelectUsers editCond deleteCond readCond), [])]"
  using assms
  by (auto simp: getReadableUsersWithPermissions_def readable_body_def pool_connect_def
      client_query_def run_stmt_def record_event_def client_release_def console_error_def Let_def
      split: option.splits sum.splits prod.splits if_splits)

lemma find_own:
  "distinct (map f us) \<Longrightarrow> u \<in> set us \<Longrightarrow> find (\<lambda>v. f v = f u) us = Some u"
proof (induction us)
  case Nil
  then show ?case by simp
next
  case (Cons a us)
  show ?case
  proof (cases "a = u")
    case True
    then show ?thesis by simp
  next
    case False
    with Cons.prems have u: "u \<in> set us" by simp
    with Cons.prems have "f a \<noteq> f u" by auto
    with Cons.IH u Cons.prems show ?thesis by simp
  qed
qed

lemma apply_updates_targets:
  assumes "distinct (map username us)"
    and "list_all (\<lambda>u. username u \<in> set (map username table)) us"
  shows "list_all (\<lambda>u. list_ex (\<lambda>r. username r = username u \<and> role r = role u)
            (apply_updates us table)) us"
proof -
  have "list_ex (\<lambda>r. username r = username u \<and> role r = role u) (apply_updates us table)"
    if u: "u \<in> set us" for u
  proof -
    from assms(2) u obtain r where r: "r \<in> set table" "username r = username u"
      by (auto simp: list_all_iff)
    have "find (\<lambda>v. username v = username r) us = Some u"
      using find_own [OF assms(1) u] r(2) by simp
    then have "r\<lparr>role := role u\<rparr> \<in> set (apply_updates us table)"
      using r(1) by (force simp: apply_updates_def)
    then show ?thesis
      using r(2) by (auto simp: list_ex_iff intro!: bexI [of _ "r\<lparr>role := role u\<rparr>"])
  qed
  then show ?thesis by (simp add: list_all_iff)
qed

lemma policy_env_healthy:
  "connect_error policy_env = None" "fault policy_env = (\<lambda>_. None)"
  by (simp_all add: policy_env_def)

lemma policy_env_listLocal:
  "listLocal policy_env (''User'', a) ''edit_role'' ''User'' c = Inr (policy_condition a ''edit_role'' c)"
  "listLocal policy_env (''User'', a) ''read'' ''User'' c = Inr (policy_condition a ''read'' c)"
  "listLocal policy_env (''User'', a) ''delete'' ''User'' c = Inr (policy_condition a ''delete'' c)"
  by (simp_all add: policy_env_def policy_listLocal_def)

lemma acme_primary_key: "primary_key acme_db"
  by code_simp

lemma affected_less:
  assumes "primary_key db"
    and "list_ex (\<lambda>u. username u \<notin> set (map username (users db))) updates \<or>
         \<not> distinct (map username updates)"
  shows "affected cond updates db < length updates"
proof -
  have "affected cond updates db \<noteq> length updates"
  proof
    assume "affected cond updates db = length updates"
    with affected_eq_iff [OF assms(1), of cond updates]
    have d: "distinct (map username updates)"
      and a: "list_all (\<lambda>u. authorized cond db (username u)) updates"
      by simp_all
    from a have "\<not> list_ex (\<lambda>u. username u \<notin> set (map username (users db))) updates"
      by (auto simp: list_all_iff list_ex_iff authorized_def)
    with d assms(2) show False by simp
  qed
  with affected_le [OF assms(1), of cond updates] show ?thesis by simp
qed

lemma select_users_origin:
  assumes "r \<in> set (select_users editCond deleteCond readCond db)"
  shows "frag_holds readCond db (username r) \<and>
    editRole r = frag_holds editCond db (username r) \<and>
    deleteUser r = frag_holds deleteCond db (username r) \<and>
    list_ex (\<lambda>row. username row = username r \<and> org row = org r \<and> role row = role r) (users db)"
proof -
  from assms obtain row where row: "row \<in> set (users db)" "frag_holds readCond db (username row)"
      "r = select_row editCond deleteCond db row"
    by (auto simp: select_users_set)
  then show ?thesis
    by (auto simp: select_row_def list_ex_iff)
qed

lemma policy_env_listLocal_username:
  "listLocal policy_env (''User'', ''bob'') ''read'' ''User'' ''username'' = Inr (policy_condition ''bob'' ''read'' ''username'')"
  "listLocal policy_env (''User'', ''bob'') ''edit_role'' ''User'' ''username'' = Inr (policy_condition ''bob'' ''edit_role'' ''username'')"
  "listLocal policy_env (''User'', ''bob'') ''delete'' ''User'' ''username'' = Inr (policy_condition ''bob'' ''delete'' ''username'')"
  by (simp_all add: policy_env_listLocal)

lemma createUser_guarded:
  "guarded False (trace (snd (createUser env requestor formData db)))"
  by (auto simp: createUser_def pool_connect_def no_client_def authorize_def
      client_query_def run_stmt_def record_event_def client_release_def Let_def
      split: option.splits sum.splits prod.splits txn_status.splits)

lemma deleteUser_guarded:
  "guarded False (trace (snd (deleteUser_action env requestor uname db)))"
  by (auto simp: deleteUser_action_def deleteUser_body_def pool_connect_def no_client_def
      authorize_def client_query_def run_stmt_def record_event_def client_release_def
      console_error_def Let_def
      split: option.splits sum.splits prod.splits txn_status.splits)

lemma createUser_refused:
  assumes "connect_error env = None"
    and "authorizeUser env db requestor ''create_user'' (''Organization'', formData ''organization'')
      = Inr False"
  shows "createUser env requestor formData db =
      (Inr (Failure (''not permitted to create user in Organization '' @ formData ''organization'')),
       \<lparr>stored = db, txn = Idle,
        trace = [Connect,
          Check requestor ''create_user'' (''Organization'', formData ''organization'') (Some False),
          Release]\<rparr>)"
  using assms
  by (simp add: createUser_def pool_connect_def authorize_def current_def record_event_def
      client_release_def Let_def)

lemma deleteUser_refused:
  assumes "connect_error env = None"
    and "authorizeUser env db requestor ''delete'' (''User'', uname) = Inr False"
  shows "deleteUser_action env requestor uname db =
      (Inl (Error (''not permitted to delete User '' @ uname)),
       \<lparr>stored = db, txn = Idle,
        trace = [Connect,
          Check requestor ''delete'' (''User'', uname) (Some False),
          ConsoleError ''Error in deleteUser:'' (Error (''not permitted to delete User '' @ uname)),
          Release]\<rparr>)"
  using assms
  by (simp add: deleteUser_action_def deleteUser_body_def pool_connect_def authorize_def
      current_def record_event_def client_release_def console_error_def Let_def)

lemma run_stmt_trace: "trace (snd (run_stmt st ps s)) = trace s"
  by (cases st; cases "txn s")
     (auto simp: run_stmt_def split: sum.splits prod.splits)

lemma client_query_trace:
  "client_query env st ps s = (r, c) \<Longrightarrow> trace c = trace s @ [Query (sql_text st) ps]"
proof -
  assume a: "client_query env st ps s = (r, c)"
  show ?thesis
  proof (cases "fault env (sql_text st)")
    case None
    with a have "c = snd (run_stmt st ps (record_event (Query (sql_text st) ps) s))"
      by (simp add: client_query_def Let_def)
    then show ?thesis
      by (simp only: run_stmt_trace) (simp add: record_event_def)
  next
    case (Some e)
    with a show ?thesis
      by (auto simp: client_query_def Let_def record_event_def split: prod.splits)
  qed
qed

lemma queries_append: "queries (xs @ ys) = queries xs @ queries ys"
  by (induction xs rule: queries.induct) simp_all

lemma client_query_unawaited_trace:
  "trace (client_query_unawaited env st ps s) = trace s @ [Query (sql_text st) ps]"
  using client_query_trace [OF surjective_pairing]
  by (simp add: client_query_unawaited_def)

lemma placeholders_length:
  "length updates' = length updates \<Longrightarrow> placeholders updates' = placeholders updates"
  by (simp add: placeholders_upt)

lemma authorize_trace:
  "authorize env requestor action resource s = (r, c) \<Longrightarrow> queries (trace c) = queries (trace s)"
  by (auto simp: authorize_def record_event_def queries_append split: sum.splits)

lemma createUser_queries:
  "set (queries (trace (snd (createUser env requestor formData db)))) \<subseteq>
    {(sql_text InsertUser, [formData ''username'', formData ''organization'', formData ''role''])}"
  by (auto simp: createUser_def pool_connect_def no_client_def Let_def
      client_release_def record_event_def queries_append
      simp del: sql_text.simps
      split: option.splits sum.splits prod.splits
      dest!: client_query_trace authorize_trace)

lemma deleteUser_queries:
  "set (queries (trace (snd (deleteUser_action env requestor uname db)))) \<subseteq>
    {(sql_text DeleteUser, [uname])}"
  by (auto simp: deleteUser_action_def deleteUser_body_def pool_connect_def no_client_def Let_def
      client_release_def console_error_def record_event_def queries_append
      simp del: sql_text.simps
      split: option.splits sum.splits prod.splits if_splits
      dest!: client_query_trace authorize_trace)

lemma editUsers_queries:
  assumes "listLocal env (''User'', requestor) ''edit_role'' ''User'' ''users.username'' = Inr cond"
  shows "set (queries (trace (snd (editUsersRoleByUsername env requestor updates db)))) \<subseteq>
    {(sql_text BEGIN, []), (sql_text (queryText cond updates), userFields updates),
     (sql_text ROLLBACK, []), (sql_text COMMIT, [])}"
  using assms
  by (auto simp: editUsersRoleByUsername_def editUsers_body_def pool_connect_def no_client_def Let_def
      client_query_unawaited_trace
      client_release_def console_error_def record_event_def queries_append
      simp del: sql_text.simps
      split: option.splits sum.splits prod.splits if_splits
      dest!: client_query_trace)

lemma policy_point_check:
  "\<forall>x. frag_holds (policy_condition a ''read'' c) db x \<longrightarrow>
     authorizeUser policy_env db a ''read'' (''User'', x) = Inr True"
  by (simp add: policy_condition_def policy_env_def policy_authorizeUser_def)

lemma filter_none:
  "filter P ys = [] \<Longrightarrow> filter (\<lambda>x. \<not> P x) ys = ys"
  by (induction ys) (auto split: if_splits)

lemma splice_one_only:
  assumes "findIndex P xs = Some i" and "length (filter P xs) = Suc 0"
  shows "splice_one i xs = (filter (\<lambda>x. \<not> P x) xs, xs ! i)"
proof -
  from findIndex_Some [OF assms(1)]
  have i: "i < length xs" and p: "P (xs ! i)" and before: "filter P (take i xs) = []"
    by simp_all
  have split: "xs = take i xs @ xs ! i # drop (Suc i) xs"
    using i by (rule id_take_nth_drop)
  have "filter P xs = filter P (take i xs) @ filter P (xs ! i # drop (Suc i) xs)"
    by (subst split) (simp only: filter_append)
  with before p have "filter P xs = xs ! i # filter P (drop (Suc i) xs)"
    by simp
  with assms(2) have after: "filter P (drop (Suc i) xs) = []"
    by simp
  have "filter (\<lambda>x. \<not> P x) xs =
      filter (\<lambda>x. \<not> P x) (take i xs) @ filter (\<lambda>x. \<not> P x) (xs ! i # drop (Suc i) xs)"
    by (subst split) (simp only: filter_append)
  also have "\<dots> = take i xs @ drop (Suc i) xs"
    using p filter_none [OF before] filter_none [OF after] by simp
  finally show ?thesis
    by (simp add: splice_one_def)
qed

lemma readable_run_found:
  assumes "connect_error env = None" "fault env = (\<lambda>_. None)"
    and "listLocal env (''User'', requestor) ''read'' ''User'' ''username'' = Inr readCond"
    and "listLocal env (''User'', requestor) ''edit_role'' ''User'' ''username'' = Inr editCond"
    and "listLocal env (''User'', requestor) ''delete'' ''User'' ''username'' = Inr deleteCond"
    and "findIndex (\<lambda>user. username user = requestor)
           (select_users editCond deleteCond readCond db) = Some i"
  shows "getReadableUsersWithPermissions env requestor db =
    (Inr (splice_one i (select_users editCond deleteCond readCond db)),
     \<lparr>stored = db, txn = Idle,
      trace = [Connect, Query (sql_text (SelectUsers editCond deleteCond readCond)) [], Release]\<rparr>)"
  using assms
  by (simp add: getReadableUsersWithPermissions_def readable_body_def pool_connect_def
      client_query_def run_stmt_def record_event_def client_release_def Let_def
      del: sql_text.simps)

lemma update_text_eq:
  "sql_text (UpdateRoles rs c') = sql_text (UpdateRoles rs c) \<longleftrightarrow> frag_text c' = frag_text c"
  by (simp only: sql_text.simps append_assoc same_append_eq append_same_eq)

section \<open>The claims\<close>

subsection \<open>C1\<close>

text \<open>
  C1 (as amended). With the connection, the evaluator and the statements working, a batch
  update is all or nothing. If its \<^verbatim>\<open>UPDATE\<close> reports fewer rows than there are updates, the
  action throws the not-permitted error after sending \<^verbatim>\<open>ROLLBACK\<close>, never sends \<^verbatim>\<open>COMMIT\<close>,
  and the table is as before. If the updates are not empty, name pairwise distinct users,
  each an existing row on which the requestor's \<^verbatim>\<open>edit_role\<close> condition holds, and carry
  roles of the enum, the action returns, \<^verbatim>\<open>COMMIT\<close> is sent, and every named row has its
  new role while all others are unchanged.
\<close>

theorem batch_update_all_or_nothing:
  assumes "connect_error env = None" and "fault env = (\<lambda>_. None)"
    and "listLocal env (''User'', requestor) ''edit_role'' ''User'' ''users.username'' = Inr cond"
    and "primary_key db"
    and "editUsersRoleByUsername env requestor updates db = (outcome, s)"
  shows
    "(execute (queryText cond updates) (userFields updates) db = Inr (res, db') \<and>
        rowCount res < length updates \<longrightarrow>
      outcome = Inl not_permitted_all \<and> stored s = db \<and> txn s = Idle \<and>
      Query ''ROLLBACK'' [] \<in> set (trace s) \<and> Query ''COMMIT'' [] \<notin> set (trace s)) \<and>
     (updates \<noteq> [] \<and> distinct (map username updates) \<and>
        list_all (\<lambda>u. authorized cond db (username u)) updates \<and>
        list_all (\<lambda>u. role u \<in> set organization_role) updates \<longrightarrow>
      outcome = Inr () \<and> stored s = db\<lparr>users := apply_updates updates (users db)\<rparr> \<and>
      list_all (\<lambda>u. list_ex (\<lambda>r. username r = username u \<and> role r = role u) (users (stored s)))
        updates \<and>
      txn s = Idle \<and> Query ''COMMIT'' [] \<in> set (trace s) \<and> Query ''ROLLBACK'' [] \<notin> set (trace s))"
proof (intro conjI impI)
  assume a: "execute (queryText cond updates) (userFields updates) db = Inr (res, db') \<and>
        rowCount res < length updates"
  then have "rowCount res \<noteq> length updates" by simp
  from edit_run_mismatch [OF assms(1-3) conjunct1 [OF a] this] assms(5)
  have o: "outcome = Inl not_permitted_all"
    and s: "s = \<lparr>stored = db, txn = Idle,
       trace = batch_trace cond updates @
         [Query ''ROLLBACK'' [],
          ConsoleError ''Error in editUsersRoleByUsername:'' not_permitted_all, Release]\<rparr>"
    by simp_all
  show "outcome = Inl not_permitted_all" by (rule o)
  show "stored s = db" "txn s = Idle" by (simp_all add: s)
  show "Query ''ROLLBACK'' [] \<in> set (trace s)" by (simp add: s)
  show "Query ''COMMIT'' [] \<notin> set (trace s)"
    by (simp add: s batch_trace_def queryText_def nl_def)
next
  assume b: "updates \<noteq> [] \<and> distinct (map username updates) \<and>
        list_all (\<lambda>u. authorized cond db (username u)) updates \<and>
        list_all (\<lambda>u. role u \<in> set organization_role) updates"
  then have ne: "updates \<noteq> []" and d: "distinct (map username updates)"
    and au: "list_all (\<lambda>u. authorized cond db (username u)) updates"
    and va: "list_all (\<lambda>u. role u \<in> set organization_role) updates"
    by simp_all
  have ex: "execute (queryText cond updates) (userFields updates) db =
      Inr (\<lparr>rows = [], rowCount = affected cond updates db\<rparr>,
           db\<lparr>users := apply_updates updates (users db)\<rparr>)"
    by (simp only: execute_queryText update_roles_all [OF ne va au])
  have n: "affected cond updates db = length updates"
    using affected_eq_iff [OF assms(4), of cond updates] d au by simp
  then have "rowCount \<lparr>rows = [], rowCount = affected cond updates db\<rparr> = length updates"
    by simp
  from edit_run_match [OF assms(1-3) ex this] assms(5)
  have o: "outcome = Inr ()"
    and s: "s = \<lparr>stored = db\<lparr>users := apply_updates updates (users db)\<rparr>, txn = Idle,
       trace = batch_trace cond updates @ [Query ''COMMIT'' [], Release]\<rparr>"
    by simp_all
  show "outcome = Inr ()" by (rule o)
  show "stored s = db\<lparr>users := apply_updates updates (users db)\<rparr>" "txn s = Idle"
    by (simp_all add: s)
  from au have "list_all (\<lambda>u. username u \<in> set (map username (users db))) updates"
    by (simp add: list_all_iff authorized_def)
  from apply_updates_targets [OF d this]
  show "list_all (\<lambda>u. list_ex (\<lambda>r. username r = username u \<and> role r = role u) (users (stored s)))
        updates"
    by (simp add: s)
  show "Query ''COMMIT'' [] \<in> set (trace s)" by (simp add: s)
  show "Query ''ROLLBACK'' [] \<notin> set (trace s)"
    by (simp add: s batch_trace_def queryText_def nl_def)
qed

text \<open>
  The theorem at work in the sample table: the member \<open>alice\<close> may not change the role of
  \<open>bob\<close>, and the administrator \<open>bob\<close> changes the role of \<open>alice\<close>.
\<close>

theorem batch_update_all_or_nothing_witness:
  "connect_error policy_env = None \<and> fault policy_env = (\<lambda>_. None) \<and>
   listLocal policy_env (''User'', ''bob'') ''edit_role'' ''User'' ''users.username''
     = Inr (policy_condition ''bob'' ''edit_role'' ''users.username'') \<and>
   listLocal policy_env (''User'', ''alice'') ''edit_role'' ''User'' ''users.username''
     = Inr (policy_condition ''alice'' ''edit_role'' ''users.username'') \<and>
   primary_key acme_db \<and>
   execute (queryText (policy_condition ''alice'' ''edit_role'' ''users.username'') [bob\<lparr>role := ''member''\<rparr>])
     (userFields [bob\<lparr>role := ''member''\<rparr>]) acme_db = Inr (\<lparr>rows = [], rowCount = 0\<rparr>, acme_db) \<and>
   rowCount \<lparr>rows = [], rowCount = 0\<rparr> < length [bob\<lparr>role := ''member''\<rparr>] \<and>
   fst (editUsersRoleByUsername policy_env ''alice'' [bob\<lparr>role := ''member''\<rparr>] acme_db)
     = Inl not_permitted_all \<and>
   stored (snd (editUsersRoleByUsername policy_env ''alice'' [bob\<lparr>role := ''member''\<rparr>] acme_db))
     = acme_db \<and>
   [alice\<lparr>role := ''admin''\<rparr>] \<noteq> [] \<and> distinct (map username [alice\<lparr>role := ''admin''\<rparr>]) \<and>
   list_all (\<lambda>u. authorized (policy_condition ''bob'' ''edit_role'' ''users.username'') acme_db (username u))
     [alice\<lparr>role := ''admin''\<rparr>] \<and>
   list_all (\<lambda>u. role u \<in> set organization_role) [alice\<lparr>role := ''admin''\<rparr>] \<and>
   fst (editUsersRoleByUsername policy_env ''bob'' [alice\<lparr>role := ''admin''\<rparr>] acme_db) = Inr () \<and>
   users (stored (snd (editUsersRoleByUsername policy_env ''bob'' [alice\<lparr>role := ''admin''\<rparr>] acme_db)))
     = [root_user, bob, alice\<lparr>role := ''admin''\<rparr>]"
proof -
  let ?ca = "policy_condition ''alice'' ''edit_role'' ''users.username''"
  let ?cb = "policy_condition ''bob'' ''edit_role'' ''users.username''"
  let ?ua = "[bob\<lparr>role := ''member''\<rparr>]"
  let ?ub = "[alice\<lparr>role := ''admin''\<rparr>]"
  have la: "listLocal policy_env (''User'', ''alice'') ''edit_role'' ''User'' ''users.username'' = Inr ?ca"
    and lb: "listLocal policy_env (''User'', ''bob'') ''edit_role'' ''User'' ''users.username'' = Inr ?cb"
    by (simp_all add: policy_env_listLocal)
  have ea: "execute (queryText ?ca ?ua) (userFields ?ua) acme_db
      = Inr (\<lparr>rows = [], rowCount = 0\<rparr>, acme_db)"
    by code_simp
  have ra: "rowCount \<lparr>rows = [], rowCount = 0\<rparr> < length ?ua"
    by simp
  have pb: "?ub \<noteq> [] \<and> distinct (map username ?ub) \<and>
      list_all (\<lambda>u. authorized ?cb acme_db (username u)) ?ub \<and>
      list_all (\<lambda>u. role u \<in> set organization_role) ?ub"
    by code_simp
  have apb: "apply_updates ?ub (users acme_db) = [root_user, bob, alice\<lparr>role := ''admin''\<rparr>]"
    by code_simp
  note first = batch_update_all_or_nothing
    [OF policy_env_healthy la acme_primary_key surjective_pairing,
      of ?ua "\<lparr>rows = [], rowCount = 0\<rparr>" acme_db]
  note second = batch_update_all_or_nothing
    [OF policy_env_healthy lb acme_primary_key surjective_pairing, of ?ub]
  from first ea ra
  have ca: "fst (editUsersRoleByUsername policy_env ''alice'' ?ua acme_db) = Inl not_permitted_all"
      "stored (snd (editUsersRoleByUsername policy_env ''alice'' ?ua acme_db)) = acme_db"
    by blast+
  from second pb
  have cb: "fst (editUsersRoleByUsername policy_env ''bob'' ?ub acme_db) = Inr ()"
      "stored (snd (editUsersRoleByUsername policy_env ''bob'' ?ub acme_db))
        = acme_db\<lparr>users := apply_updates ?ub (users acme_db)\<rparr>"
    by blast+
  from cb(2) apb
  have cb2: "users (stored (snd (editUsersRoleByUsername policy_env ''bob'' ?ub acme_db)))
      = [root_user, bob, alice\<lparr>role := ''admin''\<rparr>]"
    by simp
  show ?thesis
    using policy_env_healthy la lb acme_primary_key ea ra ca pb cb(1) cb2 by blast
qed

text \<open>
  Against C1 as stated: targets that are all authorized are not always updated. Naming
  \<open>alice\<close> twice gives one affected row for two updates, and the batch is refused; giving
  her a role outside the enum makes the statement fail. Nothing is stored either way.
\<close>

theorem authorized_targets_not_always_updated:
  "list_all (\<lambda>u. authorized (policy_condition ''bob'' ''edit_role'' ''users.username'') acme_db (username u))
     [alice\<lparr>role := ''admin''\<rparr>, alice\<lparr>role := ''admin''\<rparr>] \<and>
   fst (editUsersRoleByUsername policy_env ''bob''
     [alice\<lparr>role := ''admin''\<rparr>, alice\<lparr>role := ''admin''\<rparr>] acme_db) = Inl not_permitted_all \<and>
   stored (snd (editUsersRoleByUsername policy_env ''bob''
     [alice\<lparr>role := ''admin''\<rparr>, alice\<lparr>role := ''admin''\<rparr>] acme_db)) = acme_db \<and>
   list_all (\<lambda>u. authorized (policy_condition ''bob'' ''edit_role'' ''users.username'') acme_db (username u))
     [alice\<lparr>role := ''owner''\<rparr>] \<and>
   fst (editUsersRoleByUsername policy_env ''bob'' [alice\<lparr>role := ''owner''\<rparr>] acme_db)
     = Inl (DatabaseError ''22P02'' ''invalid input value for enum organization_role'') \<and>
   stored (snd (editUsersRoleByUsername policy_env ''bob'' [alice\<lparr>role := ''owner''\<rparr>] acme_db))
     = acme_db"
  by code_simp

subsection \<open>C2\<close>

text \<open>
  C2. In \<open>createUser\<close> and \<open>deleteUser\<close> no statement is sent before the authorization
  check, or after a check that did not answer yes. When the check answers no, nothing is
  sent at all, the table is untouched, and the caller gets the not-permitted message
  naming the action and the resource: returned as a failure by \<open>createUser\<close>, thrown by
  \<open>deleteUser\<close>.
\<close>

theorem single_mutations_are_guarded:
  "guarded False (trace (snd (createUser env requestor formData db))) \<and>
   guarded False (trace (snd (deleteUser_action env requestor uname db))) \<and>
   (connect_error env = None \<and>
    authorizeUser env db requestor ''create_user'' (''Organization'', formData ''organization'')
      = Inr False \<longrightarrow>
      createUser env requestor formData db =
        (Inr (Failure (''not permitted to create user in Organization '' @ formData ''organization'')),
         \<lparr>stored = db, txn = Idle,
          trace = [Connect,
            Check requestor ''create_user'' (''Organization'', formData ''organization'') (Some False),
            Release]\<rparr>)) \<and>
   (connect_error env = None \<and>
    authorizeUser env db requestor ''delete'' (''User'', uname) = Inr False \<longrightarrow>
      deleteUser_action env requestor uname db =
        (Inl (Error (''not permitted to delete User '' @ uname)),
         \<lparr>stored = db, txn = Idle,
          trace = [Connect,
            Check requestor ''delete'' (''User'', uname) (Some False),
            ConsoleError ''Error in deleteUser:'' (Error (''not permitted to delete User '' @ uname)),
            Release]\<rparr>))"
  using createUser_guarded deleteUser_guarded createUser_refused deleteUser_refused
  by blast

text \<open>
  The member \<open>alice\<close> may neither create a user in her organization nor delete \<open>bob\<close>; the
  administrator \<open>bob\<close> creates \<open>carol\<close> with one statement, after the check.
\<close>

theorem single_mutations_are_guarded_witness:
  "connect_error policy_env = None \<and>
   authorizeUser policy_env acme_db ''alice'' ''create_user'' (''Organization'', carol_form ''organization'')
     = Inr False \<and>
   authorizeUser policy_env acme_db ''alice'' ''delete'' (''User'', ''bob'') = Inr False \<and>
   fst (createUser policy_env ''alice'' carol_form acme_db)
     = Inr (Failure ''not permitted to create user in Organization acme'') \<and>
   queries (trace (snd (createUser policy_env ''alice'' carol_form acme_db))) = [] \<and>
   fst (deleteUser_action policy_env ''alice'' ''bob'' acme_db)
     = Inl (Error ''not permitted to delete User bob'') \<and>
   queries (trace (snd (deleteUser_action policy_env ''alice'' ''bob'' acme_db))) = [] \<and>
   guarded False (trace (snd (createUser policy_env ''bob'' carol_form acme_db))) \<and>
   queries (trace (snd (createUser policy_env ''bob'' carol_form acme_db)))
     = [(sql_text InsertUser, [''carol'', ''acme'', ''member''])]"
proof -
  have a1: "authorizeUser policy_env acme_db ''alice'' ''create_user''
      (''Organization'', carol_form ''organization'') = Inr False"
    by code_simp
  have a2: "authorizeUser policy_env acme_db ''alice'' ''delete'' (''User'', ''bob'') = Inr False"
    by code_simp
  have org: "carol_form ''organization'' = ''acme''"
    by (simp add: carol_form_def)
  note t1 = single_mutations_are_guarded
    [where env = policy_env and requestor = "''alice''" and formData = carol_form
      and db = acme_db and uname = "''bob''"]
  note t2 = single_mutations_are_guarded
    [where env = policy_env and requestor = "''bob''" and formData = carol_form
      and db = acme_db and uname = "''bob''"]
  from t1 policy_env_healthy(1) a1
  have c1: "fst (createUser policy_env ''alice'' carol_form acme_db)
      = Inr (Failure ''not permitted to create user in Organization acme'')"
    and c2: "queries (trace (snd (createUser policy_env ''alice'' carol_form acme_db))) = []"
    by (simp_all add: org)
  from t1 policy_env_healthy(1) a2
  have c3: "fst (deleteUser_action policy_env ''alice'' ''bob'' acme_db)
      = Inl (Error ''not permitted to delete User bob'')"
    and c4: "queries (trace (snd (deleteUser_action policy_env ''alice'' ''bob'' acme_db))) = []"
    by simp_all
  from t2 have c5: "guarded False (trace (snd (createUser policy_env ''bob'' carol_form acme_db)))"
    by blast
  have c6: "queries (trace (snd (createUser policy_env ''bob'' carol_form acme_db)))
     = [(sql_text InsertUser, [''carol'', ''acme'', ''member''])]"
    by code_simp
  from policy_env_healthy(1) a1 a2 c1 c2 c3 c4 c5 c6 show ?thesis by blast
qed

subsection \<open>C3\<close>

text \<open>
  C3. Whenever \<open>getReadableUsersWithPermissions\<close> returns, every row it returns, the
  requestor's own and the others, is a row of \<^verbatim>\<open>users\<close> on which the requestor's \<^verbatim>\<open>read\<close>
  condition holds, its \<open>editRole\<close> and \<open>deleteUser\<close> columns are the \<^verbatim>\<open>edit_role\<close> and \<^verbatim>\<open>delete\<close>
  conditions evaluated on that row's own username, and exactly one statement was sent.
  Where the evaluator's point check agrees with its compiled condition, the point check
  of the requestor's \<^verbatim>\<open>read\<close> on each returned row answers yes.
\<close>

theorem readable_rows_satisfy_read_condition:
  assumes "listLocal env (''User'', requestor) ''read'' ''User'' ''username'' = Inr readCond"
    and "listLocal env (''User'', requestor) ''edit_role'' ''User'' ''username'' = Inr editCond"
    and "listLocal env (''User'', requestor) ''delete'' ''User'' ''username'' = Inr deleteCond"
    and "getReadableUsersWithPermissions env requestor db = (Inr (others, thisUser), s)"
  shows "list_all (\<lambda>r. frag_holds readCond db (username r) \<and>
        editRole r = frag_holds editCond db (username r) \<and>
        deleteUser r = frag_holds deleteCond db (username r) \<and>
        list_ex (\<lambda>row. username row = username r \<and> org row = org r \<and> role row = role r)
          (users db))
      (thisUser # others) \<and>
    queries (trace s) = [(sql_text (SelectUsers editCond deleteCond readCond), [])] \<and>
    ((\<forall>x. frag_holds readCond db x \<longrightarrow>
          authorizeUser env db requestor ''read'' (''User'', x) = Inr True) \<longrightarrow>
      list_all (\<lambda>r. authorizeUser env db requestor ''read'' (''User'', username r) = Inr True)
        (thisUser # others))"
proof -
  let ?rows = "select_users editCond deleteCond readCond db"
  from readable_returned [OF assms]
  obtain i where i: "findIndex (\<lambda>user. username user = requestor) ?rows = Some i"
    and sp: "(others, thisUser) = splice_one i ?rows"
    and q: "queries (trace s) = [(sql_text (SelectUsers editCond deleteCond readCond), [])]"
    by blast
  from sp have o: "others = fst (splice_one i ?rows)" and t: "thisUser = snd (splice_one i ?rows)"
    by (simp_all add: prod_eq_iff)
  from splice_one_parts(2,3) [OF i] o t
  have "set (thisUser # others) \<subseteq> set ?rows"
    by simp
  then have "\<forall>r\<in>set (thisUser # others). r \<in> set ?rows"
    by blast
  then have all: "list_all (\<lambda>r. frag_holds readCond db (username r) \<and>
        editRole r = frag_holds editCond db (username r) \<and>
        deleteUser r = frag_holds deleteCond db (username r) \<and>
        list_ex (\<lambda>row. username row = username r \<and> org row = org r \<and> role row = role r)
          (users db))
      (thisUser # others)"
    unfolding list_all_iff using select_users_origin by blast
  have "list_all (\<lambda>r. authorizeUser env db requestor ''read'' (''User'', username r) = Inr True)
        (thisUser # others)"
    if "\<forall>x. frag_holds readCond db x \<longrightarrow>
          authorizeUser env db requestor ''read'' (''User'', x) = Inr True"
    using all that unfolding list_all_iff by blast
  with all q show ?thesis by blast
qed

text \<open>What the administrator \<open>bob\<close> is shown in the sample table.\<close>

theorem readable_rows_satisfy_read_condition_witness:
  "listLocal policy_env (''User'', ''bob'') ''read'' ''User'' ''username''
     = Inr (policy_condition ''bob'' ''read'' ''username'') \<and>
   listLocal policy_env (''User'', ''bob'') ''edit_role'' ''User'' ''username''
     = Inr (policy_condition ''bob'' ''edit_role'' ''username'') \<and>
   listLocal policy_env (''User'', ''bob'') ''delete'' ''User'' ''username''
     = Inr (policy_condition ''bob'' ''delete'' ''username'') \<and>
   fst (getReadableUsersWithPermissions policy_env ''bob'' acme_db) =
     Inr ([\<lparr>username = ''alice'', org = ''acme'', role = ''member'', editRole = True, deleteUser = True\<rparr>],
          \<lparr>username = ''bob'', org = ''acme'', role = ''admin'', editRole = True, deleteUser = True\<rparr>) \<and>
   list_all (\<lambda>r. frag_holds (policy_condition ''bob'' ''read'' ''username'') acme_db (username r))
     [\<lparr>username = ''bob'', org = ''acme'', role = ''admin'', editRole = True, deleteUser = True\<rparr>,
      \<lparr>username = ''alice'', org = ''acme'', role = ''member'', editRole = True, deleteUser = True\<rparr>] \<and>
   length (queries (trace (snd (getReadableUsersWithPermissions policy_env ''bob'' acme_db)))) = 1 \<and>
   authorizeUser policy_env acme_db ''bob'' ''read'' (''User'', ''bob'') = Inr True \<and>
   authorizeUser policy_env acme_db ''bob'' ''read'' (''User'', ''alice'') = Inr True \<and>
   authorizeUser policy_env acme_db ''bob'' ''read'' (''User'', ''root'') = Inr False"
proof -
  let ?alice = "\<lparr>username = ''alice'', org = ''acme'', role = ''member'', editRole = True, deleteUser = True\<rparr>"
  let ?bob = "\<lparr>username = ''bob'', org = ''acme'', role = ''admin'', editRole = True, deleteUser = True\<rparr>"
  have run: "fst (getReadableUsersWithPermissions policy_env ''bob'' acme_db) = Inr ([?alice], ?bob)"
    by code_simp
  then have "getReadableUsersWithPermissions policy_env ''bob'' acme_db
      = (Inr ([?alice], ?bob), snd (getReadableUsersWithPermissions policy_env ''bob'' acme_db))"
    by (simp add: prod_eq_iff)
  note t = readable_rows_satisfy_read_condition [OF policy_env_listLocal_username this]
  have root: "authorizeUser policy_env acme_db ''bob'' ''read'' (''User'', ''root'') = Inr False"
    by code_simp
  from t
  have "list_all (\<lambda>r. frag_holds (policy_condition ''bob'' ''read'' ''username'') acme_db (username r))
      [?bob, ?alice]"
    and "length (queries (trace (snd (getReadableUsersWithPermissions policy_env ''bob'' acme_db)))) = 1"
    by (simp_all add: list_all_iff)
  moreover from t policy_point_check [of "''bob''" "''username''" acme_db]
  have "authorizeUser policy_env acme_db ''bob'' ''read'' (''User'', ''bob'') = Inr True"
    and "authorizeUser policy_env acme_db ''bob'' ''read'' (''User'', ''alice'') = Inr True"
    by (simp_all add: list_all_iff)
  ultimately show ?thesis
    using policy_env_listLocal_username run root by blast
qed

subsection \<open>C4\<close>

text \<open>
  C4 does not hold of the code. The batch update does not take the requestor out of its
  targets: an administrator has \<^verbatim>\<open>edit_role\<close> on every user of the organization, the
  administrator included, and the update of the requestor's own role is committed.
\<close>

theorem requestor_can_change_own_role:
  "user_permission acme_db ''bob'' ''edit_role'' ''bob'' \<and>
   fst (editUsersRoleByUsername policy_env ''bob'' [bob\<lparr>role := ''member''\<rparr>] acme_db) = Inr () \<and>
   users (stored (snd (editUsersRoleByUsername policy_env ''bob'' [bob\<lparr>role := ''member''\<rparr>] acme_db)))
     = [root_user, bob\<lparr>role := ''member''\<rparr>, alice] \<and>
   Query ''COMMIT'' [] \<in> set (trace (snd
     (editUsersRoleByUsername policy_env ''bob'' [bob\<lparr>role := ''member''\<rparr>] acme_db)))"
  by code_simp

subsection \<open>C5\<close>

text \<open>
  C5 does not hold of the code. When the \<^verbatim>\<open>UPDATE\<close> fails after \<^verbatim>\<open>BEGIN\<close>, the error is logged
  and thrown again and the client is released: no \<^verbatim>\<open>ROLLBACK\<close> is sent, and the connection
  goes back to the pool inside the aborted transaction. Here the statement fails on a role
  that is not in the enum.
\<close>

theorem failed_update_leaves_transaction_open:
  "fst (editUsersRoleByUsername policy_env ''bob'' [alice\<lparr>role := ''owner''\<rparr>] acme_db)
     = Inl (DatabaseError ''22P02'' ''invalid input value for enum organization_role'') \<and>
   trace (snd (editUsersRoleByUsername policy_env ''bob'' [alice\<lparr>role := ''owner''\<rparr>] acme_db))
     = batch_trace (policy_condition ''bob'' ''edit_role'' ''users.username'') [alice\<lparr>role := ''owner''\<rparr>] @
       [ConsoleError ''Error in editUsersRoleByUsername:''
          (DatabaseError ''22P02'' ''invalid input value for enum organization_role''),
        Release] \<and>
   Query ''ROLLBACK'' [] \<notin> set (trace (snd
     (editUsersRoleByUsername policy_env ''bob'' [alice\<lparr>role := ''owner''\<rparr>] acme_db))) \<and>
   txn (snd (editUsersRoleByUsername policy_env ''bob'' [alice\<lparr>role := ''owner''\<rparr>] acme_db))
     = Aborted"
  by code_simp

subsection \<open>C6\<close>

text \<open>
  C6. With the connection, the evaluator and the query working and usernames unique, a
  requestor who is a row of \<^verbatim>\<open>users\<close> that the \<^verbatim>\<open>read\<close> condition admits has exactly one
  entry in the rows the query returns. \<open>thisUser\<close> is that entry, the requestor's own
  table row with its two permission columns, and the returned \<open>users\<close> are the rows of
  the query without it, in the order of the query; no row of theirs carries the
  requestor's username. One statement is sent, and the table is not changed.
\<close>

theorem requestor_returned_separately:
  assumes "connect_error env = None" and "fault env = (\<lambda>_. None)"
    and "listLocal env (''User'', requestor) ''read'' ''User'' ''username'' = Inr readCond"
    and "listLocal env (''User'', requestor) ''edit_role'' ''User'' ''username'' = Inr editCond"
    and "listLocal env (''User'', requestor) ''delete'' ''User'' ''username'' = Inr deleteCond"
    and "primary_key db"
    and "authorized readCond db requestor"
  shows "\<exists>own.
    find (\<lambda>r. username r = requestor) (users db) = Some own \<and>
    length (filter (\<lambda>r. username r = requestor)
      (select_users editCond deleteCond readCond db)) = 1 \<and>
    select_row editCond deleteCond db own \<in> set (select_users editCond deleteCond readCond db) \<and>
    getReadableUsersWithPermissions env requestor db =
      (Inr (filter (\<lambda>r. username r \<noteq> requestor) (select_users editCond deleteCond readCond db),
            select_row editCond deleteCond db own),
       \<lparr>stored = db, txn = Idle,
        trace = [Connect, Query (sql_text (SelectUsers editCond deleteCond readCond)) [],
                 Release]\<rparr>) \<and>
    username (select_row editCond deleteCond db own) = requestor \<and>
    requestor \<notin> set (map username
      (filter (\<lambda>r. username r \<noteq> requestor) (select_users editCond deleteCond readCond db)))"
proof -
  let ?rows = "select_users editCond deleteCond readCond db"
  let ?P = "\<lambda>r. username r = requestor"
  from assms(7) have holds: "frag_holds readCond db requestor"
    and present: "requestor \<in> set (map username (users db))"
    by (simp_all add: authorized_def)
  have "length (filter ?P ?rows) = length (filter (\<lambda>r. username r = requestor) (users db))"
    using holds by (simp add: select_users_filter_name)
  also have "\<dots> = Suc 0"
    using assms(6) present unfolding primary_key_def by (rule key_count_one)
  finally have one: "length (filter ?P ?rows) = Suc 0" .
  then have "filter ?P ?rows \<noteq> []" by auto
  then obtain i where i: "findIndex ?P ?rows = Some i"
    by (cases "findIndex ?P ?rows") (simp_all add: findIndex_None)
  have sp: "splice_one i ?rows = (filter (\<lambda>r. \<not> ?P r) ?rows, ?rows ! i)"
    using i one by (rule splice_one_only)
  from findIndex_Some [OF i] have inside: "?rows ! i \<in> set ?rows" and name: "?P (?rows ! i)"
    by simp_all
  from inside obtain own where own: "own \<in> set (users db)"
      and eq: "?rows ! i = select_row editCond deleteCond db own"
    by (auto simp: select_users_set)
  from name eq have own_name: "username own = requestor"
    by (simp add: select_row_def)
  from assms(6) own have "find (\<lambda>r. username r = username own) (users db) = Some own"
    unfolding primary_key_def by (rule find_own)
  with own_name have found: "find (\<lambda>r. username r = requestor) (users db) = Some own"
    by simp
  have run: "getReadableUsersWithPermissions env requestor db =
      (Inr (filter (\<lambda>r. username r \<noteq> requestor) ?rows, select_row editCond deleteCond db own),
       \<lparr>stored = db, txn = Idle,
        trace = [Connect, Query (sql_text (SelectUsers editCond deleteCond readCond)) [],
                 Release]\<rparr>)"
    using readable_run_found [OF assms(1-5) i] sp eq by simp
  have out: "requestor \<notin> set (map username (filter (\<lambda>r. username r \<noteq> requestor) ?rows))"
    by auto
  from inside eq have member: "select_row editCond deleteCond db own \<in> set ?rows"
    by simp
  from name eq have this_name: "username (select_row editCond deleteCond db own) = requestor"
    by simp
  from one have one': "length (filter ?P ?rows) = 1" by simp
  from found one' member run this_name out show ?thesis by blast
qed

text \<open>
  The administrator \<open>bob\<close> reads the sample table: his own row comes back as \<open>thisUser\<close>,
  and \<open>alice\<close>, the other user of his organization, as the list of others.
\<close>

theorem requestor_returned_separately_witness:
  "connect_error policy_env = None \<and> fault policy_env = (\<lambda>_. None) \<and>
   listLocal policy_env (''User'', ''bob'') ''read'' ''User'' ''username''
     = Inr (policy_condition ''bob'' ''read'' ''username'') \<and>
   listLocal policy_env (''User'', ''bob'') ''edit_role'' ''User'' ''username''
     = Inr (policy_condition ''bob'' ''edit_role'' ''username'') \<and>
   listLocal policy_env (''User'', ''bob'') ''delete'' ''User'' ''username''
     = Inr (policy_condition ''bob'' ''delete'' ''username'') \<and>
   primary_key acme_db \<and>
   authorized (policy_condition ''bob'' ''read'' ''username'') acme_db ''bob'' \<and>
   find (\<lambda>r. username r = ''bob'') (users acme_db) = Some bob \<and>
   fst (getReadableUsersWithPermissions policy_env ''bob'' acme_db) =
     Inr ([\<lparr>username = ''alice'', org = ''acme'', role = ''member'', editRole = True, deleteUser = True\<rparr>],
          \<lparr>username = ''bob'', org = ''acme'', role = ''admin'', editRole = True, deleteUser = True\<rparr>)"
proof -
  let ?e = "policy_condition ''bob'' ''edit_role'' ''username''"
  let ?d = "policy_condition ''bob'' ''delete'' ''username''"
  let ?r = "policy_condition ''bob'' ''read'' ''username''"
  have a: "authorized ?r acme_db ''bob''"
    by code_simp
  have f: "find (\<lambda>r. username r = ''bob'') (users acme_db) = Some bob"
    by code_simp
  have others: "filter (\<lambda>r. username r \<noteq> ''bob'') (select_users ?e ?d ?r acme_db)
      = [\<lparr>username = ''alice'', org = ''acme'', role = ''member'', editRole = True, deleteUser = True\<rparr>]"
    by code_simp
  have own: "select_row ?e ?d acme_db bob
      = \<lparr>username = ''bob'', org = ''acme'', role = ''admin'', editRole = True, deleteUser = True\<rparr>"
    by code_simp
  from requestor_returned_separately
    [OF policy_env_healthy policy_env_listLocal_username acme_primary_key a] f
  have "fst (getReadableUsersWithPermissions policy_env ''bob'' acme_db) =
      Inr (filter (\<lambda>r. username r \<noteq> ''bob'') (select_users ?e ?d ?r acme_db),
           select_row ?e ?d acme_db bob)"
    by auto
  then have "fst (getReadableUsersWithPermissions policy_env ''bob'' acme_db) =
     Inr ([\<lparr>username = ''alice'', org = ''acme'', role = ''member'', editRole = True, deleteUser = True\<rparr>],
          \<lparr>username = ''bob'', org = ''acme'', role = ''admin'', editRole = True, deleteUser = True\<rparr>)"
    by (simp only: others own)
  with policy_env_healthy policy_env_listLocal_username acme_primary_key a f
  show ?thesis by blast
qed

subsection \<open>C7\<close>

text \<open>
  C7. Once the evaluator has compiled the three conditions,
  \<open>getReadableUsersWithPermissions\<close> throws the error \<^verbatim>\<open>user <requestor> not found\<close> exactly
  when the connection and the query succeed and the requestor is not among the rows read.
  It is an error the action constructs itself. A failure to connect and a failure of the
  query are thrown on as the driver raised them, with their code, and so are never that
  error.
\<close>

theorem absent_requestor_error_is_its_own:
  assumes "listLocal env (''User'', requestor) ''read'' ''User'' ''username'' = Inr readCond"
    and "listLocal env (''User'', requestor) ''edit_role'' ''User'' ''username'' = Inr editCond"
    and "listLocal env (''User'', requestor) ''delete'' ''User'' ''username'' = Inr deleteCond"
  shows
    "(fst (getReadableUsersWithPermissions env requestor db)
        = Inl (Error (''user '' @ requestor @ '' not found'')) \<longleftrightarrow>
      connect_error env = None \<and>
      fault env (sql_text (SelectUsers editCond deleteCond readCond)) = None \<and>
      requestor \<notin> set (map username (select_users editCond deleteCond readCond db))) \<and>
     (connect_error env = Some (code, msg) \<longrightarrow>
        fst (getReadableUsersWithPermissions env requestor db) = Inl (SystemError code msg)) \<and>
     (connect_error env = None \<and>
      fault env (sql_text (SelectUsers editCond deleteCond readCond)) = Some (code, msg) \<longrightarrow>
        fst (getReadableUsersWithPermissions env requestor db) = Inl (DatabaseError code msg))"
proof -
  let ?rows = "select_users editCond deleteCond readCond db"
  let ?sel = "SelectUsers editCond deleteCond readCond"
  let ?R = "fst (getReadableUsersWithPermissions env requestor db)"
  have absent_iff: "findIndex (\<lambda>user. username user = requestor) ?rows = None \<longleftrightarrow>
      requestor \<notin> set (map username ?rows)"
    by (auto simp: findIndex_None filter_empty_conv)
  have refused: "?R = Inl (SystemError c m)" if "connect_error env = Some (c, m)" for c m
    using that by (simp add: getReadableUsersWithPermissions_def pool_connect_def)
  have faulty: "?R = Inl (DatabaseError c m)"
    if "connect_error env = None" "fault env (sql_text ?sel) = Some (c, m)" for c m
    using that assms
    by (simp add: getReadableUsersWithPermissions_def readable_body_def pool_connect_def
        client_query_def record_event_def Let_def del: sql_text.simps)
  have working: "?R = (case findIndex (\<lambda>user. username user = requestor) ?rows of
         None \<Rightarrow> Inl (Error (''user '' @ requestor @ '' not found''))
       | Some i \<Rightarrow> Inr (splice_one i ?rows))"
    if "connect_error env = None" "fault env (sql_text ?sel) = None"
    using that assms
    by (simp add: getReadableUsersWithPermissions_def readable_body_def pool_connect_def
        client_query_def run_stmt_def record_event_def Let_def
        del: sql_text.simps split: option.splits)
  have "?R = Inl (Error (''user '' @ requestor @ '' not found'')) \<longleftrightarrow>
      connect_error env = None \<and> fault env (sql_text ?sel) = None \<and>
      requestor \<notin> set (map username ?rows)"
  proof (cases "connect_error env")
    case (Some cm)
    then show ?thesis using refused [of "fst cm" "snd cm"] by simp
  next
    case None
    show ?thesis
    proof (cases "fault env (sql_text ?sel)")
      case (Some cm)
      then show ?thesis using faulty [OF None, of "fst cm" "snd cm"] None by simp
    next
      case no_fault: None
      show ?thesis
        using working [OF None no_fault] None no_fault absent_iff
        by (auto split: option.splits)
    qed
  qed
  with refused faulty show ?thesis by blast
qed

text \<open>
  The three cases in the sample table: \<open>carol\<close> is not a user; the pool refuses the
  connection; the query is cancelled.
\<close>

theorem absent_requestor_error_is_its_own_witness:
  "listLocal policy_env (''User'', ''carol'') ''read'' ''User'' ''username'' = Inr (carol_cond ''read'') \<and>
   listLocal policy_env (''User'', ''carol'') ''edit_role'' ''User'' ''username'' = Inr (carol_cond ''edit_role'') \<and>
   listLocal policy_env (''User'', ''carol'') ''delete'' ''User'' ''username'' = Inr (carol_cond ''delete'') \<and>
   connect_error policy_env = None \<and>
   fault policy_env (sql_text (SelectUsers (carol_cond ''edit_role'') (carol_cond ''delete'') (carol_cond ''read''))) = None \<and>
   ''carol'' \<notin> set (map username
     (select_users (carol_cond ''edit_role'') (carol_cond ''delete'') (carol_cond ''read'') acme_db)) \<and>
   fst (getReadableUsersWithPermissions policy_env ''carol'' acme_db)
     = Inl (Error ''user carol not found'') \<and>
   connect_error refusing_env = Some (''ECONNREFUSED'', ''connect ECONNREFUSED'') \<and>
   fst (getReadableUsersWithPermissions refusing_env ''carol'' acme_db)
     = Inl (SystemError ''ECONNREFUSED'' ''connect ECONNREFUSED'') \<and>
   connect_error timeout_env = None \<and>
   fault timeout_env (sql_text (SelectUsers (carol_cond ''edit_role'') (carol_cond ''delete'') (carol_cond ''read'')))
     = Some (''57014'', ''canceling statement due to statement timeout'') \<and>
   fst (getReadableUsersWithPermissions timeout_env ''carol'' acme_db)
     = Inl (DatabaseError ''57014'' ''canceling statement due to statement timeout'')"
proof -
  let ?sel = "SelectUsers (carol_cond ''edit_role'') (carol_cond ''delete'') (carol_cond ''read'')"
  have l1: "listLocal policy_env (''User'', ''carol'') ''read'' ''User'' ''username'' = Inr (carol_cond ''read'')"
      "listLocal policy_env (''User'', ''carol'') ''edit_role'' ''User'' ''username'' = Inr (carol_cond ''edit_role'')"
      "listLocal policy_env (''User'', ''carol'') ''delete'' ''User'' ''username'' = Inr (carol_cond ''delete'')"
    by (simp_all add: policy_env_listLocal carol_cond_def)
  then have l2: "listLocal refusing_env (''User'', ''carol'') ''read'' ''User'' ''username'' = Inr (carol_cond ''read'')"
      "listLocal refusing_env (''User'', ''carol'') ''edit_role'' ''User'' ''username'' = Inr (carol_cond ''edit_role'')"
      "listLocal refusing_env (''User'', ''carol'') ''delete'' ''User'' ''username'' = Inr (carol_cond ''delete'')"
    by (simp_all add: refusing_env_def)
  from l1 have l3: "listLocal timeout_env (''User'', ''carol'') ''read'' ''User'' ''username'' = Inr (carol_cond ''read'')"
      "listLocal timeout_env (''User'', ''carol'') ''edit_role'' ''User'' ''username'' = Inr (carol_cond ''edit_role'')"
      "listLocal timeout_env (''User'', ''carol'') ''delete'' ''User'' ''username'' = Inr (carol_cond ''delete'')"
    by (simp_all add: timeout_env_def)
  have h1: "connect_error policy_env = None \<and> fault policy_env (sql_text ?sel) = None"
    by (simp add: policy_env_healthy)
  have absent: "''carol'' \<notin> set (map username
      (select_users (carol_cond ''edit_role'') (carol_cond ''delete'') (carol_cond ''read'') acme_db))"
    by code_simp
  have h2: "connect_error refusing_env = Some (''ECONNREFUSED'', ''connect ECONNREFUSED'')"
    by (simp add: refusing_env_def)
  have h3: "connect_error timeout_env = None \<and>
      fault timeout_env (sql_text ?sel) = Some (''57014'', ''canceling statement due to statement timeout'')"
    by (simp add: timeout_env_def policy_env_healthy)
  from absent_requestor_error_is_its_own [OF l1, where db = acme_db] h1 absent
  have c1: "fst (getReadableUsersWithPermissions policy_env ''carol'' acme_db)
      = Inl (Error ''user carol not found'')"
    by simp
  from absent_requestor_error_is_its_own
    [OF l2, where code = "''ECONNREFUSED''" and msg = "''connect ECONNREFUSED''" and db = acme_db] h2
  have c2: "fst (getReadableUsersWithPermissions refusing_env ''carol'' acme_db)
      = Inl (SystemError ''ECONNREFUSED'' ''connect ECONNREFUSED'')"
    by blast
  from absent_requestor_error_is_its_own
    [OF l3, where code = "''57014''" and msg = "''canceling statement due to statement timeout''"
      and db = acme_db] h3
  have c3: "fst (getReadableUsersWithPermissions timeout_env ''carol'' acme_db)
      = Inl (DatabaseError ''57014'' ''canceling statement due to statement timeout'')"
    by blast
  from l1 h1 absent c1 h2 c2 h3 c3 show ?thesis by blast
qed

subsection \<open>C8\<close>

text \<open>
  C8 (as amended). A batch update with no targets never returns: whatever the surroundings
  do, the action throws, never sends \<^verbatim>\<open>COMMIT\<close>, and the table stays as it was. The code
  has no test of its own for the empty list. With the connection, the evaluator and the
  statements working it sends \<^verbatim>\<open>BEGIN\<close> and the \<^verbatim>\<open>UPDATE\<close> with an empty \<^verbatim>\<open>VALUES\<close> list, and
  what it throws is the syntax error of the database, thrown on as it came.
\<close>

theorem empty_batch_is_an_error:
  "(\<exists>e. fst (editUsersRoleByUsername env requestor [] db) = Inl e) \<and>
   stored (snd (editUsersRoleByUsername env requestor [] db)) = db \<and>
   Query ''COMMIT'' [] \<notin> set (trace (snd (editUsersRoleByUsername env requestor [] db))) \<and>
   (connect_error env = None \<and> fault env = (\<lambda>_. None) \<and>
    listLocal env (''User'', requestor) ''edit_role'' ''User'' ''users.username'' = Inr cond \<longrightarrow>
      fst (editUsersRoleByUsername env requestor [] db)
        = Inl (DatabaseError ''42601'' ''syntax error at or near )'') \<and>
      queries (trace (snd (editUsersRoleByUsername env requestor [] db)))
        = [(''BEGIN'', []), (sql_text (queryText cond []), [])])"
proof -
  have always: "(\<exists>e. fst (editUsersRoleByUsername env requestor [] db) = Inl e) \<and>
     stored (snd (editUsersRoleByUsername env requestor [] db)) = db \<and>
     Query ''COMMIT'' [] \<notin> set (trace (snd (editUsersRoleByUsername env requestor [] db)))"
    by (auto simp: editUsersRoleByUsername_def editUsers_body_def pool_connect_def no_client_def
        client_query_def run_stmt_def record_event_def client_release_def console_error_def
        queryText_def placeholders_upt update_roles_def userFields_def Let_def
        split: option.splits sum.splits prod.splits)
  have working: "fst (editUsersRoleByUsername env requestor [] db)
        = Inl (DatabaseError ''42601'' ''syntax error at or near )'') \<and>
      queries (trace (snd (editUsersRoleByUsername env requestor [] db)))
        = [(''BEGIN'', []), (sql_text (queryText cond []), [])]"
    if h: "connect_error env = None" "fault env = (\<lambda>_. None)"
      "listLocal env (''User'', requestor) ''edit_role'' ''User'' ''users.username'' = Inr cond"
  proof -
    have "execute (queryText cond []) (userFields []) db
        = Inl (DatabaseError ''42601'' ''syntax error at or near )'')"
      by (simp only: execute_queryText) (simp add: update_roles_def)
    from edit_run_failed [OF h this] show ?thesis
      by (simp add: batch_trace_def userFields_def del: sql_text.simps)
  qed
  from always working show ?thesis by blast
qed

text \<open>The administrator \<open>bob\<close> submits no updates.\<close>

theorem empty_batch_is_an_error_witness:
  "connect_error policy_env = None \<and> fault policy_env = (\<lambda>_. None) \<and>
   listLocal policy_env (''User'', ''bob'') ''edit_role'' ''User'' ''users.username''
     = Inr (policy_condition ''bob'' ''edit_role'' ''users.username'') \<and>
   fst (editUsersRoleByUsername policy_env ''bob'' [] acme_db)
     = Inl (DatabaseError ''42601'' ''syntax error at or near )'') \<and>
   stored (snd (editUsersRoleByUsername policy_env ''bob'' [] acme_db)) = acme_db"
proof -
  have l: "listLocal policy_env (''User'', ''bob'') ''edit_role'' ''User'' ''users.username''
      = Inr (policy_condition ''bob'' ''edit_role'' ''users.username'')"
    by (simp add: policy_env_listLocal)
  from empty_batch_is_an_error
    [where env = policy_env and requestor = "''bob''" and db = acme_db
      and cond = "policy_condition ''bob'' ''edit_role'' ''users.username''"]
    policy_env_healthy l
  show ?thesis by blast
qed

text \<open>
  Against C8 as stated: the empty list is not turned away as the caller's mistake. The
  action opens a transaction and sends a statement that cannot be parsed; the error is
  the one the database raises for that statement.
\<close>

theorem empty_batch_reaches_the_database:
  "queries (trace (snd (editUsersRoleByUsername policy_env ''bob'' [] acme_db)))
     = [(''BEGIN'', []),
        (sql_text (queryText (policy_condition ''bob'' ''edit_role'' ''users.username'') []), [])] \<and>
   execute (queryText (policy_condition ''bob'' ''edit_role'' ''users.username'') []) [] acme_db
     = Inl (DatabaseError ''42601'' ''syntax error at or near )'') \<and>
   fst (editUsersRoleByUsername policy_env ''bob'' [] acme_db)
     = Inl (DatabaseError ''42601'' ''syntax error at or near )'')"
  by code_simp

subsection \<open>C9\<close>

text \<open>
  C9 (as amended). The values of the users created, deleted or updated never reach the text
  of a statement: they travel as parameters. \<open>createUser\<close> sends at most its \<^verbatim>\<open>INSERT\<close>,
  \<open>deleteUser\<close> at most its \<^verbatim>\<open>DELETE\<close>, each with one fixed text. The batch update sends
  \<^verbatim>\<open>BEGIN\<close>, its \<^verbatim>\<open>UPDATE\<close>, \<^verbatim>\<open>ROLLBACK\<close> or \<^verbatim>\<open>COMMIT\<close>. The text of the \<^verbatim>\<open>UPDATE\<close> depends on the
  number of updates and on the text of the condition that the evaluator compiled for the
  requestor, which is spliced in as it is, and on nothing else: for two lists of the same
  length the texts are equal exactly when the condition texts are. Its parameter
  references bind the usernames and roles of the updates, in order.
\<close>

theorem statement_text_is_free_of_values:
  assumes "listLocal env (''User'', requestor) ''edit_role'' ''User'' ''users.username'' = Inr cond"
  shows
   "set (queries (trace (snd (createUser env requestor formData db)))) \<subseteq>
      {(''INSERT INTO users (username, org, role) VALUES ($1, $2, $3::organization_role);'',
        [formData ''username'', formData ''organization'', formData ''role''])} \<and>
    set (queries (trace (snd (deleteUser_action env requestor uname db)))) \<subseteq>
      {(''DELETE FROM users WHERE username = $1;'', [uname])} \<and>
    set (queries (trace (snd (editUsersRoleByUsername env requestor updates db)))) \<subseteq>
      {(''BEGIN'', []), (sql_text (queryText cond updates), userFields updates),
       (''ROLLBACK'', []), (''COMMIT'', [])} \<and>
    (length updates' = length updates \<longrightarrow>
       (sql_text (queryText cond' updates') = sql_text (queryText cond updates) \<longleftrightarrow>
        frag_text cond' = frag_text cond)) \<and>
    bind_rows (userFields updates) (placeholders updates)
      = Inr (map (\<lambda>u. (username u, role u)) updates)"
proof (intro conjI impI)
  show "set (queries (trace (snd (createUser env requestor formData db)))) \<subseteq>
      {(''INSERT INTO users (username, org, role) VALUES ($1, $2, $3::organization_role);'',
        [formData ''username'', formData ''organization'', formData ''role''])}"
    using createUser_queries [of env requestor formData db] by (simp only: sql_text.simps)
  show "set (queries (trace (snd (deleteUser_action env requestor uname db)))) \<subseteq>
      {(''DELETE FROM users WHERE username = $1;'', [uname])}"
    using deleteUser_queries [of env requestor uname db] by (simp only: sql_text.simps)
  show "set (queries (trace (snd (editUsersRoleByUsername env requestor updates db)))) \<subseteq>
      {(''BEGIN'', []), (sql_text (queryText cond updates), userFields updates),
       (''ROLLBACK'', []), (''COMMIT'', [])}"
    using editUsers_queries [OF assms, of updates db] by (simp only: sql_text.simps(1-3))
  show "sql_text (queryText cond' updates') = sql_text (queryText cond updates) \<longleftrightarrow>
        frag_text cond' = frag_text cond"
    if "length updates' = length updates"
    using placeholders_length [OF that] update_text_eq [of "placeholders updates" cond' cond]
    by (simp only: queryText_def)
  show "bind_rows (userFields updates) (placeholders updates)
      = Inr (map (\<lambda>u. (username u, role u)) updates)"
    by (rule bind_userFields)
qed

text \<open>
  A username and a role written as SQL travel as parameters; the statement has the text
  it has for any single update by the same requestor.
\<close>

theorem statement_text_is_free_of_values_witness:
  "listLocal policy_env (''User'', ''bob'') ''edit_role'' ''User'' ''users.username''
     = Inr (policy_condition ''bob'' ''edit_role'' ''users.username'') \<and>
   length injection_attempt = length [alice] \<and>
   sql_text (queryText (policy_condition ''bob'' ''edit_role'' ''users.username'') injection_attempt)
     = sql_text (queryText (policy_condition ''bob'' ''edit_role'' ''users.username'') [alice]) \<and>
   queries (trace (snd (editUsersRoleByUsername policy_env ''bob'' injection_attempt acme_db)))
     = [(''BEGIN'', []),
        (sql_text (queryText (policy_condition ''bob'' ''edit_role'' ''users.username'') [alice]),
         [''x; DROP TABLE users; --'', ''admin); --'']),
        (''ROLLBACK'', [])]"
proof -
  let ?c = "policy_condition ''bob'' ''edit_role'' ''users.username''"
  have l: "listLocal policy_env (''User'', ''bob'') ''edit_role'' ''User'' ''users.username'' = Inr ?c"
    by (simp add: policy_env_listLocal)
  have len: "length injection_attempt = length [alice]"
    by (simp add: injection_attempt_def)
  from statement_text_is_free_of_values
    [OF l, where updates' = injection_attempt and updates = "[alice]" and cond' = ?c] len
  have same: "sql_text (queryText ?c injection_attempt) = sql_text (queryText ?c [alice])"
    by blast
  have run: "queries (trace (snd (editUsersRoleByUsername policy_env ''bob'' injection_attempt acme_db)))
     = [(''BEGIN'', []),
        (sql_text (queryText ?c injection_attempt), [''x; DROP TABLE users; --'', ''admin); --'']),
        (''ROLLBACK'', [])]"
    by code_simp
  from l len same run show ?thesis by simp
qed

text \<open>
  Against C9 as stated: the requestor is a username the caller supplies, and the text of
  the \<^verbatim>\<open>UPDATE\<close> is not independent of it. The same single update sent by \<open>bob\<close> and by
  \<open>alice\<close> gives two different statement texts, which differ in the condition compiled for
  each of them.
\<close>

theorem update_text_varies_with_requestor:
  "queries (trace (snd (editUsersRoleByUsername policy_env ''bob'' [alice] acme_db))) ! 1
     = (sql_text (queryText (policy_condition ''bob'' ''edit_role'' ''users.username'') [alice]),
        [''alice'', ''member'']) \<and>
   queries (trace (snd (editUsersRoleByUsername policy_env ''alice'' [alice] acme_db))) ! 1
     = (sql_text (queryText (policy_condition ''alice'' ''edit_role'' ''users.username'') [alice]),
        [''alice'', ''member'']) \<and>
   sql_text (queryText (policy_condition ''bob'' ''edit_role'' ''users.username'') [alice])
     \<noteq> sql_text (queryText (policy_condition ''alice'' ''edit_role'' ''users.username'') [alice])"
  by code_simp

subsection \<open>C10\<close>

text \<open>
  C10 (as amended). With the connection, the evaluator and the statements working, a batch
  whose roles are all of the enum and which names a user who is not in the table, or names
  a user twice, is always refused: its \<^verbatim>\<open>UPDATE\<close> runs and reports fewer rows than there are
  updates, so the action sends \<^verbatim>\<open>ROLLBACK\<close>, throws the not-permitted error and leaves the
  table as it was. Nothing is assumed about the requestor's condition: the refusal is the
  same when it holds on every row there is.
\<close>

theorem unknown_or_repeated_target_is_refused:
  assumes "connect_error env = None" and "fault env = (\<lambda>_. None)"
    and "listLocal env (''User'', requestor) ''edit_role'' ''User'' ''users.username'' = Inr cond"
    and "primary_key db"
    and "list_ex (\<lambda>u. username u \<notin> set (map username (users db))) updates \<or>
         \<not> distinct (map username updates)"
    and "list_all (\<lambda>u. role u \<in> set organization_role) updates"
  shows "(\<exists>db'. execute (queryText cond updates) (userFields updates) db =
        Inr (\<lparr>rows = [], rowCount = affected cond updates db\<rparr>, db')) \<and>
    affected cond updates db < length updates \<and>
    editUsersRoleByUsername env requestor updates db =
      (Inl not_permitted_all,
       \<lparr>stored = db, txn = Idle,
        trace = batch_trace cond updates @
          [Query ''ROLLBACK'' [],
           ConsoleError ''Error in editUsersRoleByUsername:'' not_permitted_all, Release]\<rparr>)"
proof -
  from assms(5) have ne: "updates \<noteq> []" by auto
  from update_roles_ok [OF ne assms(6), of cond db]
  obtain db' where ex: "execute (queryText cond updates) (userFields updates) db =
      Inr (\<lparr>rows = [], rowCount = affected cond updates db\<rparr>, db')"
    by (auto simp only: execute_queryText)
  from affected_less [OF assms(4,5), of cond]
  have less: "affected cond updates db < length updates" .
  then have "rowCount \<lparr>rows = [], rowCount = affected cond updates db\<rparr> \<noteq> length updates"
    by simp
  from edit_run_mismatch [OF assms(1-3) ex this] ex less
  show ?thesis by blast
qed

text \<open>
  The administrator \<open>bob\<close> may edit every user of his organization, and is refused when
  the batch also names \<open>carol\<close>, who does not exist.
\<close>

theorem unknown_or_repeated_target_is_refused_witness:
  "connect_error policy_env = None \<and> fault policy_env = (\<lambda>_. None) \<and>
   listLocal policy_env (''User'', ''bob'') ''edit_role'' ''User'' ''users.username''
     = Inr (policy_condition ''bob'' ''edit_role'' ''users.username'') \<and>
   primary_key acme_db \<and>
   list_ex (\<lambda>u. username u \<notin> set (map username (users acme_db)))
     [alice\<lparr>role := ''admin''\<rparr>, carol] \<and>
   list_all (\<lambda>u. role u \<in> set organization_role) [alice\<lparr>role := ''admin''\<rparr>, carol] \<and>
   list_all (\<lambda>x. frag_holds (policy_condition ''bob'' ''edit_role'' ''users.username'') acme_db x)
     [''bob'', ''alice''] \<and>
   affected (policy_condition ''bob'' ''edit_role'' ''users.username'')
     [alice\<lparr>role := ''admin''\<rparr>, carol] acme_db = 1 \<and>
   fst (editUsersRoleByUsername policy_env ''bob'' [alice\<lparr>role := ''admin''\<rparr>, carol] acme_db)
     = Inl not_permitted_all \<and>
   stored (snd (editUsersRoleByUsername policy_env ''bob'' [alice\<lparr>role := ''admin''\<rparr>, carol]
     acme_db)) = acme_db"
proof -
  let ?c = "policy_condition ''bob'' ''edit_role'' ''users.username''"
  let ?us = "[alice\<lparr>role := ''admin''\<rparr>, carol]"
  have l: "listLocal policy_env (''User'', ''bob'') ''edit_role'' ''User'' ''users.username'' = Inr ?c"
    by (simp add: policy_env_listLocal)
  have missing: "list_ex (\<lambda>u. username u \<notin> set (map username (users acme_db))) ?us"
    by code_simp
  have valid: "list_all (\<lambda>u. role u \<in> set organization_role) ?us"
    by code_simp
  have every: "list_all (\<lambda>x. frag_holds ?c acme_db x) [''bob'', ''alice'']"
    by code_simp
  have count: "affected ?c ?us acme_db = 1"
    by code_simp
  from unknown_or_repeated_target_is_refused
    [OF policy_env_healthy l acme_primary_key disjI1 [OF missing] valid]
  have "fst (editUsersRoleByUsername policy_env ''bob'' ?us acme_db) = Inl not_permitted_all"
    and "stored (snd (editUsersRoleByUsername policy_env ''bob'' ?us acme_db)) = acme_db"
    by simp_all
  with policy_env_healthy l acme_primary_key missing valid every count show ?thesis by blast
qed

text \<open>
  Against C10 as stated: a batch with a user who is not in the table is not always refused
  with the not-permitted error. When it also gives an existing user a role outside the
  enum, the \<^verbatim>\<open>UPDATE\<close> fails on the cast: there is no row count, the error is the
  database's, and \<^verbatim>\<open>ROLLBACK\<close> is not sent.
\<close>

theorem unknown_target_with_failing_update:
  "list_ex (\<lambda>u. username u \<notin> set (map username (users acme_db)))
     [alice\<lparr>role := ''owner''\<rparr>, carol] \<and>
   list_all (\<lambda>x. frag_holds (policy_condition ''bob'' ''edit_role'' ''users.username'') acme_db x)
     [''bob'', ''alice''] \<and>
   fst (editUsersRoleByUsername policy_env ''bob'' [alice\<lparr>role := ''owner''\<rparr>, carol] acme_db)
     = Inl (DatabaseError ''22P02'' ''invalid input value for enum organization_role'') \<and>
   fst (editUsersRoleByUsername policy_env ''bob'' [alice\<lparr>role := ''owner''\<rparr>, carol] acme_db)
     \<noteq> Inl not_permitted_all \<and>
   Query ''ROLLBACK'' [] \<notin> set (trace (snd
     (editUsersRoleByUsername policy_env ''bob'' [alice\<lparr>role := ''owner''\<rparr>, carol] acme_db)))"
  by code_simp

end
